theory Spec2Isabelle
  imports Main "HOL-Library.Word"
begin

unbundle bit_operations_syntax

section \<open>The non-pty command supervisor of sudo (src/exec\_nopty.c)\<close>

text \<open>
  A shallow embedding of \<^verbatim>\<open>exec_nopty.c\<close>: the error-pipe callback \<^verbatim>\<open>errpipe_cb\<close>,
  the signal callback \<^verbatim>\<open>signal_cb_nopty\<close>, the reaper \<^verbatim>\<open>handle_sigchld_nopty\<close>,
  \<^verbatim>\<open>fill_exec_closure_nopty\<close>, \<^verbatim>\<open>free_exec_closure_nopty\<close> and \<^verbatim>\<open>exec_nopty\<close>.

  The C code mutates the caller's \<^verbatim>\<open>command_status\<close> and \<^verbatim>\<open>command_details\<close> through
  pointers and talks to the kernel and to the event library.  The model passes a
  state record explicitly, takes every result of a system or library call as an input
  (an oracle value), and appends every outward call to a log, in program order.
  Debug output (\<^verbatim>\<open>sudo_debug_printf\<close>, \<^verbatim>\<open>debug_decl\<close>, \<^verbatim>\<open>sig2str\<close>) has no effect on
  the state and is left out.
\<close>

subsection \<open>Constants and macros of headers that are outside the source tree\<close>

text \<open>
  The raw wait status is an \<^verbatim>\<open>int\<close>; the macros of \<^verbatim>\<open>sys/wait.h\<close> classify it.
\<close>

datatype wait_kind = Exited int | Signaled int | Stopped int | Unexpected

text \<open>
  The numeric values of \<^verbatim>\<open>CMD_*\<close>, \<^verbatim>\<open>CD_*\<close> and of the \<^verbatim>\<open>errno\<close> codes, the
  conditional-compilation symbols and the decoding of a wait status come from headers
  that are not part of the source file.  They are parameters of the model: every
  function takes a \<open>platform\<close>, and the theorems hold for all of them.
\<close>

record platform =
  CMD_INVALID :: int
  CMD_ERRNO :: int
  CMD_WSTATUS :: int
  EAGAIN :: int
  EINTR :: int
  ECHILD :: int
  CD_INTERCEPT :: "32 word"
  CD_LOG_SUBCMDS :: "32 word"
  CD_USE_PTRACE :: "32 word"
  CD_SET_TIMEOUT :: "32 word"
  CD_RBAC_ENABLED :: "32 word"
  HAVE_SELINUX :: bool
  SIGINFO_defined :: bool
  wstatus :: "int \<Rightarrow> wait_kind"

definition WIFSTOPPED :: "platform \<Rightarrow> int \<Rightarrow> bool" where
  \<comment> \<open>Modelled from the spec: the macros of sys/wait.h are not in the source tree; the
      spec distinguishes a status that indicates stopped, exited, terminated by signal,
      and any other.\<close>
  "WIFSTOPPED P status = (case wstatus P status of Stopped _ \<Rightarrow> True | _ \<Rightarrow> False)"

definition WSTOPSIG :: "platform \<Rightarrow> int \<Rightarrow> int" where
  \<comment> \<open>Modelled from the spec: the stop signal carried by a stopped status.\<close>
  "WSTOPSIG P status = (case wstatus P status of Stopped signo \<Rightarrow> signo | _ \<Rightarrow> 0)"

definition WIFEXITED :: "platform \<Rightarrow> int \<Rightarrow> bool" where
  \<comment> \<open>Modelled from the spec: see \<open>WIFSTOPPED\<close>.\<close>
  "WIFEXITED P status = (case wstatus P status of Exited _ \<Rightarrow> True | _ \<Rightarrow> False)"

definition WIFSIGNALED :: "platform \<Rightarrow> int \<Rightarrow> bool" where
  \<comment> \<open>Modelled from the spec: see \<open>WIFSTOPPED\<close>.\<close>
  "WIFSIGNALED P status = (case wstatus P status of Signaled _ \<Rightarrow> True | _ \<Rightarrow> False)"

definition ISSET :: "32 word \<Rightarrow> 32 word \<Rightarrow> bool" where
  \<comment> \<open>Modelled from the spec: the macro ISSET(t, f) is declared outside the source
      tree; it is true when a bit of f is set in t.\<close>
  "ISSET t f = (t AND f \<noteq> 0)"

definition CLR :: "32 word \<Rightarrow> 32 word \<Rightarrow> 32 word" where
  \<comment> \<open>Modelled from the spec: the macro CLR(t, f) is declared outside the source
      tree; it clears the bits of f in t.\<close>
  "CLR t f = t AND NOT f"

subsection \<open>Data model\<close>

text \<open>
  The signals the supervisor registers (\<^verbatim>\<open>fill_exec_closure_nopty\<close>).  \<^verbatim>\<open>SIGINFO\<close> exists
  only where the platform defines it (\<open>SIGINFO_defined\<close>).
\<close>

datatype signal =
  SIGINT | SIGQUIT | SIGTSTP | SIGTERM | SIGHUP | SIGALRM | SIGPIPE
  | SIGUSR1 | SIGUSR2 | SIGCHLD | SIGCONT | SIGINFO

record command_status =
  type :: int
  val :: int

text \<open>A pointer to the event base is an address, \<open>None\<close> for \<^verbatim>\<open>NULL\<close>.\<close>

record command_details =
  flags :: "32 word"
  evbase :: "nat option"
  execfd :: int
  timeout :: nat

text \<open>
  An event as \<^verbatim>\<open>sudo_ev_alloc\<close> builds it: the error-pipe event reads a file descriptor
  and runs \<^verbatim>\<open>errpipe_cb\<close>, a signal event runs \<^verbatim>\<open>signal_cb_nopty\<close>.  A pointer to an
  event is \<open>None\<close> for \<^verbatim>\<open>NULL\<close>.
\<close>

datatype sudo_event = Ev_read int | Ev_signal signal

text \<open>
  \<^verbatim>\<open>struct exec_closure_nopty\<close>.  Its fields \<^verbatim>\<open>details\<close> and \<^verbatim>\<open>cstat\<close> point to the
  caller's two objects for the whole invocation; the model keeps these objects in the
  state below and reads \<^verbatim>\<open>ec->cstat->type\<close> as \<open>type (cstat s)\<close>.
\<close>

record exec_closure_nopty =
  evbase :: "nat option"
  errpipe_event :: "sudo_event option"
  sigint_event :: "sudo_event option"
  sigquit_event :: "sudo_event option"
  sigtstp_event :: "sudo_event option"
  sigterm_event :: "sudo_event option"
  sighup_event :: "sudo_event option"
  sigalrm_event :: "sudo_event option"
  sigpipe_event :: "sudo_event option"
  sigusr1_event :: "sudo_event option"
  sigusr2_event :: "sudo_event option"
  sigchld_event :: "sudo_event option"
  sigcont_event :: "sudo_event option"
  siginfo_event :: "sudo_event option"
  intercept :: "nat option"
  cmnd_pid :: int
  ppgrp :: int

text \<open>
  Every outward call the supervisor makes, as the log records it.  \<^verbatim>\<open>terminate_command\<close>,
  \<^verbatim>\<open>suspend_sudo_nopty\<close>, \<^verbatim>\<open>kill\<close>, \<^verbatim>\<open>close\<close>, \<^verbatim>\<open>alarm\<close> and the SELinux and
  intercept helpers are outside the source file: the model records that they are called,
  with their arguments, and takes their results as inputs.  \<open>Warn\<close> stands for
  \<^verbatim>\<open>sudo_warn\<close> and \<^verbatim>\<open>sudo_warnx\<close>.
\<close>

datatype call =
  Loopbreak "nat option"
  | Loopexit "nat option"
  | Ev_del "nat option" "sudo_event option"
  | Ev_add "nat option" "sudo_event option"
  | Ev_base_setdef "nat option"
  | Ev_base_free "nat option"
  | Ev_free "sudo_event option"
  | Close int
  | Kill int signal
  | Terminate_command int bool
  | Warn
  | Suspend_sudo_nopty int int int
  | Alarm nat
  | Selinux_audit_role_change
  | Intercept_cleanup

record sudo_event_base =
  base_id :: nat
  registered :: "sudo_event list"
  got_break :: bool
  got_exit :: bool
  freed :: bool

text \<open>
  The state of the parent process: the caller's two objects, the closure, the one event
  base of the invocation, the signal mask (a set of signal numbers) and the log.
\<close>

record state =
  details :: command_details
  cstat :: command_status
  ec :: exec_closure_nopty
  base :: sudo_event_base
  sigmask :: "nat set"
  calls :: "call list"

definition log_call :: "call \<Rightarrow> state \<Rightarrow> state" where
  "log_call c s = s\<lparr>calls := calls s @ [c]\<rparr>"

text \<open>The calls made between a state and a later one.\<close>

definition new_calls :: "state \<Rightarrow> state \<Rightarrow> call list" where
  "new_calls s s' = drop (length (calls s)) (calls s')"

subsection \<open>The event library, from its contract\<close>

definition on_base :: "nat option \<Rightarrow> (sudo_event_base \<Rightarrow> sudo_event_base) \<Rightarrow> state \<Rightarrow> state" where
  \<comment> \<open>Modelled from the spec: the event library is not in the source tree.  A call on
      the pointer of the invocation's event base acts on that base; on any other pointer
      it is only logged.\<close>
  "on_base p f s = (if p = Some (base_id (base s)) then s\<lparr>base := f (base s)\<rparr> else s)"

definition sudo_ev_loopbreak :: "nat option \<Rightarrow> state \<Rightarrow> state" where
  \<comment> \<open>Modelled from the spec: sudo\_ev\_loopbreak is not in the source tree.  "Loop break:
      causes the dispatcher to return with a break flag set".\<close>
  "sudo_ev_loopbreak p s = log_call (Loopbreak p) (on_base p (\<lambda>b. b\<lparr>got_break := True\<rparr>) s)"

definition sudo_ev_loopexit :: "nat option \<Rightarrow> state \<Rightarrow> state" where
  \<comment> \<open>Modelled from the spec: sudo\_ev\_loopexit is not in the source tree.  "Loop exit:
      causes the dispatcher to return normally after the current callback".\<close>
  "sudo_ev_loopexit p s = log_call (Loopexit p) (on_base p (\<lambda>b. b\<lparr>got_exit := True\<rparr>) s)"

definition sudo_ev_del :: "nat option \<Rightarrow> sudo_event option \<Rightarrow> state \<Rightarrow> state" where
  \<comment> \<open>Modelled from the spec: sudo\_ev\_del is not in the source tree.  It deregisters
      the event.\<close>
  "sudo_ev_del p ev s =
     log_call (Ev_del p ev)
       (on_base p (\<lambda>b. case ev of None \<Rightarrow> b
                        | Some e \<Rightarrow> b\<lparr>registered := removeAll e (registered b)\<rparr>) s)"

definition sudo_ev_got_break :: "nat option \<Rightarrow> state \<Rightarrow> bool" where
  \<comment> \<open>Modelled from the spec: sudo\_ev\_got\_break is not in the source tree.  It reads
      the break flag of the dispatcher.\<close>
  "sudo_ev_got_break p s = (p = Some (base_id (base s)) \<and> got_break (base s))"

subsection \<open>The error-pipe callback\<close>

text \<open>What \<^verbatim>\<open>read(fd, &errval, sizeof(errval))\<close> gave: its result, the bytes, and errno.\<close>

record read_result =
  nread :: int
  errval :: int
  errno :: int

definition errpipe_cb :: "platform \<Rightarrow> int \<Rightarrow> read_result \<Rightarrow> state \<Rightarrow> state" where
  "errpipe_cb P fd r s =
     (if nread r = - 1 then
        (if errno r \<noteq> EAGAIN P \<and> errno r \<noteq> EINTR P then
           sudo_ev_loopbreak (exec_closure_nopty.evbase (ec s))
             (if val (cstat s) = CMD_INVALID P
              then s\<lparr>cstat := (cstat s)\<lparr>type := CMD_ERRNO P, val := errno r\<rparr>\<rparr>
              else s)
         else s)
      else
        log_call (Close fd)
          (sudo_ev_del (exec_closure_nopty.evbase (ec s)) (errpipe_event (ec s))
             (if nread r = 0 then s
              else s\<lparr>cstat := (cstat s)\<lparr>type := CMD_ERRNO P, val := errval r\<rparr>\<rparr>)))"

subsection \<open>The reaper and the signal callback\<close>

text \<open>The delivery siginfo of a signal event.\<close>

record siginfo =
  user_signaled :: bool
  si_pid :: int

text \<open>
  The results of the system calls a signal callback makes: \<^verbatim>\<open>getpgid\<close> of a pid,
  \<^verbatim>\<open>kill\<close>, the successive results \<open>(pid, status, errno)\<close> of \<^verbatim>\<open>waitpid\<close>, and
  \<^verbatim>\<open>exec_ptrace_stopped\<close>.
\<close>

record syscalls =
  getpgid :: "int \<Rightarrow> int"
  kill :: "int \<Rightarrow> signal \<Rightarrow> int"
  waitpid :: "(int \<times> int \<times> int) list"
  exec_ptrace_stopped :: "int \<Rightarrow> int \<Rightarrow> nat option \<Rightarrow> bool"

text \<open>
  The drain loop of \<^verbatim>\<open>handle_sigchld_nopty\<close>, one \<^verbatim>\<open>waitpid\<close> result per step.  The
  loop has no bound of its own: it ends when \<^verbatim>\<open>waitpid\<close> reports nothing left.  A list
  of results that ends before that does not describe a run to the end, and gives \<open>None\<close>.
\<close>

fun handle_sigchld_nopty ::
  "platform \<Rightarrow> syscalls \<Rightarrow> (int \<times> int \<times> int) list \<Rightarrow> state \<Rightarrow> state option" where
  "handle_sigchld_nopty P k [] s = None"
| "handle_sigchld_nopty P k ((pid, status, err) # ws) s =
     (if pid = - 1 \<and> err = EINTR P then handle_sigchld_nopty P k ws s
      else if pid = - 1 then
        (if err \<noteq> ECHILD P then Some (log_call Warn s) else Some s)
      else if pid = 0 then Some s
      else if WIFSTOPPED P status then
        (if ISSET (flags (details s)) (CD_USE_PTRACE P)
            \<and> \<not> exec_ptrace_stopped k pid status (intercept (ec s))
         then handle_sigchld_nopty P k ws s
         else if pid = cmnd_pid (ec s) then
           handle_sigchld_nopty P k ws
             (log_call (Suspend_sudo_nopty (WSTOPSIG P status) (ppgrp (ec s)) (cmnd_pid (ec s))) s)
         else handle_sigchld_nopty P k ws s)
      else if pid \<noteq> cmnd_pid (ec s) then handle_sigchld_nopty P k ws s
      else
        handle_sigchld_nopty P k ws
          ((if type (cstat s) = CMD_INVALID P
            then s\<lparr>cstat := (cstat s)\<lparr>type := CMD_WSTATUS P, val := status\<rparr>\<rparr>
            else s)\<lparr>ec := (ec s)\<lparr>cmnd_pid := - 1\<rparr>\<rparr>))"

text \<open>
  Lines 162-168 and 179-185 are the same text: the sender's process group is the
  supervisor's or the command's, or the lookup fails and the sender is the command.
\<close>

definition sent_from_own_pgrp :: "syscalls \<Rightarrow> siginfo \<Rightarrow> state \<Rightarrow> bool" where
  "sent_from_own_pgrp k si s =
     (let si_pgrp = getpgid k (si_pid si) in
      if si_pgrp \<noteq> - 1 then si_pgrp = ppgrp (ec s) \<or> si_pgrp = cmnd_pid (ec s)
      else si_pid si = cmnd_pid (ec s))"

text \<open>Lines 190-195: send the signal to the command.\<close>

definition send_signal :: "syscalls \<Rightarrow> signal \<Rightarrow> state \<Rightarrow> state" where
  "send_signal k signo s =
     (if signo = SIGALRM then log_call (Terminate_command (cmnd_pid (ec s)) False) s
      else if kill k (cmnd_pid (ec s)) signo \<noteq> 0
      then log_call Warn (log_call (Kill (cmnd_pid (ec s)) signo) s)
      else log_call (Kill (cmnd_pid (ec s)) signo) s)"

definition signal_cb_nopty ::
  "platform \<Rightarrow> syscalls \<Rightarrow> signal \<Rightarrow> siginfo \<Rightarrow> state \<Rightarrow> state option" where
  "signal_cb_nopty P k signo si s =
     (if cmnd_pid (ec s) = - 1 then Some s
      else if signo = SIGCHLD then
        (case handle_sigchld_nopty P k (waitpid k) s of
           None \<Rightarrow> None
         | Some s1 \<Rightarrow>
             Some (if cmnd_pid (ec s1) = - 1
                   then sudo_ev_loopexit (exec_closure_nopty.evbase (ec s1)) s1
                   else s1))
      else if (signo = SIGINFO \<and> SIGINFO_defined P)
              \<or> signo = SIGINT \<or> signo = SIGQUIT \<or> signo = SIGTSTP then
        (if \<not> user_signaled si then Some s
         else if si_pid si \<noteq> 0 \<and> sent_from_own_pgrp k si s then Some s
         else Some (send_signal k signo s))
      else
        (if user_signaled si \<and> si_pid si \<noteq> 0 \<and> sent_from_own_pgrp k si s then Some s
         else Some (send_signal k signo s)))"

subsection \<open>The dispatcher, from its contract\<close>

text \<open>
  What the event base can deliver: the error pipe at a descriptor is readable and a
  \<^verbatim>\<open>read\<close> gives the result, or a signal arrives with its siginfo (and the results of
  the system calls its callback will make).
\<close>

datatype occurrence =
  Fd_readable int read_result
  | Signal_delivered signal siginfo syscalls

definition terminal_outcome :: "occurrence \<Rightarrow> bool" where
  \<comment> \<open>The error pipe's terminal outcomes: EOF or a value, not a read error.\<close>
  "terminal_outcome oc = (case oc of Fd_readable fd r \<Rightarrow> nread r \<noteq> - 1 | _ \<Rightarrow> False)"

definition errpipe_delivery :: "occurrence \<Rightarrow> bool" where
  "errpipe_delivery oc = (case oc of Fd_readable fd r \<Rightarrow> True | _ \<Rightarrow> False)"

fun run_events :: "platform \<Rightarrow> occurrence list \<Rightarrow> state \<Rightarrow> (state \<times> occurrence list) option" where
  \<comment> \<open>Modelled from the spec: the dispatcher is not in the source tree.  "Callbacks run
      serially"; an occurrence runs the callback of its event only while the event is
      registered; the loop returns once a callback has asked for loop exit or loop break,
      or when no event is left.  The result holds the occurrences whose callback ran.
      \<open>None\<close>: the occurrences end while the loop still waits.\<close>
  "run_events P [] s =
     (if got_break (base s) \<or> got_exit (base s) \<or> registered (base s) = []
      then Some (s, []) else None)"
| "run_events P (oc # ocs) s =
     (if got_break (base s) \<or> got_exit (base s) then Some (s, [])
      else case oc of
        Fd_readable fd r \<Rightarrow>
          (if Ev_read fd \<in> set (registered (base s))
           then (case run_events P ocs (errpipe_cb P fd r s) of
                   None \<Rightarrow> None
                 | Some (s', d) \<Rightarrow> Some (s', oc # d))
           else run_events P ocs s)
      | Signal_delivered signo si k \<Rightarrow>
          (if Ev_signal signo \<in> set (registered (base s))
           then (case signal_cb_nopty P k signo si s of
                   None \<Rightarrow> None
                 | Some s1 \<Rightarrow>
                     (case run_events P ocs s1 of
                        None \<Rightarrow> None
                      | Some (s', d) \<Rightarrow> Some (s', oc # d)))
           else run_events P ocs s))"

definition sudo_ev_dispatch ::
  "platform \<Rightarrow> nat option \<Rightarrow> occurrence list \<Rightarrow> state \<Rightarrow> (state \<times> occurrence list) option" where
  \<comment> \<open>Modelled from the spec: sudo\_ev\_dispatch is not in the source tree.  It runs the
      dispatcher of the invocation's event base; on any other pointer nothing runs.\<close>
  "sudo_ev_dispatch P p ocs s =
     (if p = Some (base_id (base s)) then run_events P ocs s else Some (s, []))"

subsection \<open>Filling and freeing the closure\<close>

text \<open>
  The results of the calls \<^verbatim>\<open>exec_nopty\<close> and \<^verbatim>\<open>fill_exec_closure_nopty\<close> make.
  \<open>pipe2_fds\<close> and \<open>socketpair_fds\<close> are \<open>None\<close> when the call fails;
  \<open>sudo_terminated\<close> is the external predicate on a pending termination request;
  \<open>relabel_errno\<close> is errno after \<^verbatim>\<open>selinux_relabel_tty\<close>; \<open>pending\<close> is what the
  event base will deliver during \<^verbatim>\<open>sudo_ev_dispatch\<close> and \<open>dispatch_rc\<close> its result.
\<close>

record env =
  policy_init_session :: bool
  pipe2_fds :: "(int \<times> int) option"
  socketpair_fds :: "(int \<times> int) option"
  sudo_terminated :: bool
  selinux_relabel_tty :: int
  relabel_errno :: int
  sudo_debug_fork :: int
  getpgrp :: int
  ev_alloc_ok :: "sudo_event \<Rightarrow> bool"
  ev_add_rc :: "sudo_event \<Rightarrow> int"
  intercept_setup :: "nat option"
  exec_ptrace_seize :: int
  pending :: "occurrence list"
  dispatch_rc :: int
  selinux_restore_tty :: int

text \<open>How a run of the parent stops without returning to the caller.\<close>

datatype abort = Fatal string | In_child | Loop_pending

definition sudo_ev_add :: "nat option \<Rightarrow> sudo_event \<Rightarrow> state \<Rightarrow> state" where
  \<comment> \<open>Modelled from the spec: sudo\_ev\_add is not in the source tree.  It registers the
      event on the base.\<close>
  "sudo_ev_add p ev s =
     log_call (Ev_add p (Some ev)) (on_base p (\<lambda>b. b\<lparr>registered := registered b @ [ev]\<rparr>) s)"

definition sudo_ev_base_free :: "nat option \<Rightarrow> state \<Rightarrow> state" where
  \<comment> \<open>Modelled from the spec: sudo\_ev\_base\_free is not in the source tree.  It releases
      the base with the events still registered on it.\<close>
  "sudo_ev_base_free p s =
     log_call (Ev_base_free p) (on_base p (\<lambda>b. b\<lparr>registered := [], freed := True\<rparr>) s)"

text \<open>
  One event of \<^verbatim>\<open>fill_exec_closure_nopty\<close>: allocate it, store the pointer in its field
  of the closure, add it to the base; either failure is fatal.
\<close>

definition alloc_and_add ::
  "env \<Rightarrow> sudo_event
     \<Rightarrow> ((sudo_event option \<Rightarrow> sudo_event option) \<Rightarrow> exec_closure_nopty \<Rightarrow> exec_closure_nopty)
     \<Rightarrow> state \<Rightarrow> abort + state" where
  "alloc_and_add e ev field_update s =
     (if \<not> ev_alloc_ok e ev then Inl (Fatal ''unable to allocate memory'')
      else if ev_add_rc e ev = - 1 then Inl (Fatal ''unable to add event to queue'')
      else Inr (sudo_ev_add (exec_closure_nopty.evbase (ec s)) ev
                  (s\<lparr>ec := field_update (\<lambda>_. Some ev) (ec s)\<rparr>)))"

fun alloc_and_add_all ::
  "env \<Rightarrow> (sudo_event
     \<times> ((sudo_event option \<Rightarrow> sudo_event option) \<Rightarrow> exec_closure_nopty \<Rightarrow> exec_closure_nopty)) list
     \<Rightarrow> state \<Rightarrow> abort + state" where
  "alloc_and_add_all e [] s = Inr s"
| "alloc_and_add_all e ((ev, field_update) # evs) s =
     (case alloc_and_add e ev field_update s of
        Inl a \<Rightarrow> Inl a
      | Inr s1 \<Rightarrow> alloc_and_add_all e evs s1)"

definition fill_exec_closure_nopty :: "platform \<Rightarrow> env \<Rightarrow> int \<Rightarrow> state \<Rightarrow> abort + state" where
  "fill_exec_closure_nopty P e errfd s =
     (let s1 = s\<lparr>ec := (ec s)\<lparr>ppgrp := getpgrp e,
                               exec_closure_nopty.evbase := command_details.evbase (details s)\<rparr>,
                 details := (details s)\<lparr>command_details.evbase := None\<rparr>\<rparr>
      in case alloc_and_add_all e
                ([(Ev_read errfd, errpipe_event_update),
                  (Ev_signal SIGINT, sigint_event_update),
                  (Ev_signal SIGQUIT, sigquit_event_update),
                  (Ev_signal SIGTSTP, sigtstp_event_update),
                  (Ev_signal SIGTERM, sigterm_event_update),
                  (Ev_signal SIGHUP, sighup_event_update),
                  (Ev_signal SIGALRM, sigalrm_event_update),
                  (Ev_signal SIGPIPE, sigpipe_event_update),
                  (Ev_signal SIGUSR1, sigusr1_event_update),
                  (Ev_signal SIGUSR2, sigusr2_event_update),
                  (Ev_signal SIGCHLD, sigchld_event_update),
                  (Ev_signal SIGCONT, sigcont_event_update)]
                 @ (if SIGINFO_defined P then [(Ev_signal SIGINFO, siginfo_event_update)] else []))
                s1 of
           Inl a \<Rightarrow> Inl a
         | Inr s2 \<Rightarrow> Inr (log_call (Ev_base_setdef (exec_closure_nopty.evbase (ec s2))) s2))"

definition free_exec_closure_nopty :: "state \<Rightarrow> state" where
  "free_exec_closure_nopty s =
     (let s1 = sudo_ev_base_free (exec_closure_nopty.evbase (ec s)) (log_call Intercept_cleanup s)
      in s1\<lparr>calls := calls s1 @
           map Ev_free
             [errpipe_event (ec s), sigint_event (ec s), sigquit_event (ec s),
              sigtstp_event (ec s), sigterm_event (ec s), sighup_event (ec s),
              sigalrm_event (ec s), sigpipe_event (ec s), sigusr1_event (ec s),
              sigusr2_event (ec s), sigchld_event (ec s), sigcont_event (ec s),
              siginfo_event (ec s)]\<rparr>)"

subsection \<open>The supervisor\<close>

definition ec_zero :: exec_closure_nopty where
  \<comment> \<open>\<^verbatim>\<open>struct exec_closure_nopty ec = { 0 }\<close>\<close>
  "ec_zero =
     \<lparr>evbase = None, errpipe_event = None, sigint_event = None, sigquit_event = None,
      sigtstp_event = None, sigterm_event = None, sighup_event = None, sigalrm_event = None,
      sigpipe_event = None, sigusr1_event = None, sigusr2_event = None, sigchld_event = None,
      sigcont_event = None, siginfo_event = None, intercept = None, cmnd_pid = 0, ppgrp = 0\<rparr>"

text \<open>
  Lines 451-468 of \<^verbatim>\<open>exec_nopty\<close>: the intercept set-up, with the local \<^verbatim>\<open>rc\<close>.
  \<^verbatim>\<open>intercept_setup\<close> and \<^verbatim>\<open>exec_ptrace_seize\<close> are outside the source tree; their
  results are inputs.
\<close>

definition exec_nopty_intercept :: "platform \<Rightarrow> env \<Rightarrow> state \<Rightarrow> state" where
  "exec_nopty_intercept P e s =
     (if ISSET (flags (details s)) (CD_INTERCEPT P OR CD_LOG_SUBCMDS P) then
        (let s1 = s\<lparr>ec := (ec s)\<lparr>intercept := intercept_setup e\<rparr>\<rparr>;
             (rc, s2) =
               (if intercept (ec s1) = None then (- 1, s1)
                else if ISSET (flags (details s1)) (CD_USE_PTRACE P) then
                  (exec_ptrace_seize e,
                   if exec_ptrace_seize e = 0
                   then s1\<lparr>details := (details s1)\<lparr>flags :=
                          CLR (flags (details s1))
                            (CD_INTERCEPT P OR CD_LOG_SUBCMDS P OR CD_USE_PTRACE P)\<rparr>\<rparr>
                   else s1)
                else (1, s1))
         in if rc = - 1 then log_call (Terminate_command (cmnd_pid (ec s2)) True) s2 else s2)
      else s)"

text \<open>
  Lines 429-496 of \<^verbatim>\<open>exec_nopty\<close>: the parent after the fork.  \<open>errpipe\<close> and
  \<open>intercept_sv\<close> are the two descriptor pairs, \<open>oset\<close> the saved signal mask.
\<close>

definition exec_nopty_parent ::
  "platform \<Rightarrow> env \<Rightarrow> int \<times> int \<Rightarrow> int \<times> int \<Rightarrow> nat set \<Rightarrow> state \<Rightarrow> abort + state" where
  "exec_nopty_parent P e errpipe intercept_sv oset s =
     (let s1 = log_call (Close (snd errpipe)) s;
          s2 = (if snd intercept_sv \<noteq> - 1 then log_call (Close (snd intercept_sv)) s1 else s1);
          s3 = (if execfd (details s2) \<noteq> - 1
                then (log_call (Close (execfd (details s2))) s2)
                       \<lparr>details := (details s2)\<lparr>execfd := - 1\<rparr>\<rparr>
                else s2);
          s4 = (if ISSET (flags (details s3)) (CD_SET_TIMEOUT P)
                then log_call (Alarm (timeout (details s3))) s3 else s3)
      in case fill_exec_closure_nopty P e (fst errpipe) s4 of
           Inl a \<Rightarrow> Inl a
         | Inr s5 \<Rightarrow>
             (let s6 = exec_nopty_intercept P e s5;
                  s7 = s6\<lparr>sigmask := oset\<rparr>
              in case sudo_ev_dispatch P (exec_closure_nopty.evbase (ec s7)) (pending e) s7 of
                   None \<Rightarrow> Inl Loop_pending
                 | Some (s8, d) \<Rightarrow>
                     (let s9 = (if dispatch_rc e = - 1 then log_call Warn s8 else s8);
                          s10 = (if sudo_ev_got_break (exec_closure_nopty.evbase (ec s9)) s9
                                 then (log_call (Terminate_command (cmnd_pid (ec s9)) True) s9)
                                        \<lparr>ec := (ec s9)\<lparr>cmnd_pid := - 1\<rparr>\<rparr>
                                 else s9);
                          s11 = (if HAVE_SELINUX P
                                    \<and> ISSET (flags (details s10)) (CD_RBAC_ENABLED P)
                                    \<and> selinux_restore_tty e \<noteq> 0
                                 then log_call Warn s10 else s10)
                      in Inr (free_exec_closure_nopty s11))))"

text \<open>
  \<^verbatim>\<open>exec_nopty\<close>.  \<^verbatim>\<open>sigfillset\<close> gives the set of all signals, \<^verbatim>\<open>SIG_BLOCK\<close> adds it to
  the mask and saves the old mask in \<open>oset\<close>, \<^verbatim>\<open>SIG_SETMASK\<close> installs \<open>oset\<close>.  The
  branch of the child after the fork ends in \<^verbatim>\<open>exec_cmnd\<close> or \<^verbatim>\<open>_exit\<close> and never
  returns to the caller (\<open>In_child\<close>).  The function starts from the caller's state;
  the closure is its local variable.
\<close>

definition exec_nopty :: "platform \<Rightarrow> env \<Rightarrow> state \<Rightarrow> abort + state" where
  "exec_nopty P e s0 =
     (let s = s0\<lparr>ec := ec_zero\<rparr> in
      if \<not> policy_init_session e
      then Inl (Fatal ''policy plugin failed session initialization'')
      else case pipe2_fds e of
        None \<Rightarrow> Inl (Fatal ''unable to create pipe'')
      | Some errpipe \<Rightarrow>
          (case (if ISSET (flags (details s)) (CD_INTERCEPT P OR CD_LOG_SUBCMDS P)
                    \<and> \<not> ISSET (flags (details s)) (CD_USE_PTRACE P)
                 then socketpair_fds e else Some (- 1, - 1)) of
             None \<Rightarrow> Inl (Fatal ''unable to create sockets'')
           | Some intercept_sv \<Rightarrow>
               (let oset = sigmask s;
                    s1 = s\<lparr>sigmask := sigmask s \<union> UNIV\<rparr>
                in if sudo_terminated e then Inr (s1\<lparr>sigmask := oset\<rparr>)
                   else if HAVE_SELINUX P \<and> ISSET (flags (details s1)) (CD_RBAC_ENABLED P)
                           \<and> selinux_relabel_tty e = - 1
                   then Inr (s1\<lparr>cstat := (cstat s1)\<lparr>type := CMD_ERRNO P,
                                                      val := relabel_errno e\<rparr>\<rparr>)
                   else
                     (let s2 = (if HAVE_SELINUX P
                                   \<and> ISSET (flags (details s1)) (CD_RBAC_ENABLED P)
                                then log_call Selinux_audit_role_change s1 else s1);
                          s3 = s2\<lparr>ec := (ec s2)\<lparr>cmnd_pid := sudo_debug_fork e\<rparr>\<rparr>
                      in if cmnd_pid (ec s3) = - 1 then Inl (Fatal ''unable to fork'')
                         else if cmnd_pid (ec s3) = 0 then Inl In_child
                         else exec_nopty_parent P e errpipe intercept_sv oset s3))))"

subsection \<open>A concrete platform and run, for the examples\<close>

text \<open>The layout of a wait status on Linux.\<close>

definition linux_wstatus :: "int \<Rightarrow> wait_kind" where
  "linux_wstatus st =
     (if st mod 256 = 127 then Stopped ((st div 256) mod 256)
      else if st mod 128 = 0 then Exited ((st div 256) mod 256)
      else if st mod 128 \<noteq> 127 then Signaled (st mod 128)
      else Unexpected)"

text \<open>One build: the values of sudo's headers and of Linux, SELinux compiled in.\<close>

definition example_platform :: platform where
  "example_platform =
     \<lparr>CMD_INVALID = 0, CMD_ERRNO = 1, CMD_WSTATUS = 2,
      EAGAIN = 11, EINTR = 4, ECHILD = 10,
      CD_INTERCEPT = 0x20, CD_LOG_SUBCMDS = 0x200000, CD_USE_PTRACE = 0x400000,
      CD_SET_TIMEOUT = 0x200, CD_RBAC_ENABLED = 0x1000,
      HAVE_SELINUX = True, SIGINFO_defined = False, wstatus = linux_wstatus\<rparr>"

text \<open>A closure as \<^verbatim>\<open>fill_exec_closure_nopty\<close> leaves it: command 42, supervisor's group 7.\<close>

definition example_closure :: exec_closure_nopty where
  "example_closure =
     \<lparr>evbase = Some 1, errpipe_event = Some (Ev_read 3),
      sigint_event = Some (Ev_signal SIGINT), sigquit_event = Some (Ev_signal SIGQUIT),
      sigtstp_event = Some (Ev_signal SIGTSTP), sigterm_event = Some (Ev_signal SIGTERM),
      sighup_event = Some (Ev_signal SIGHUP), sigalrm_event = Some (Ev_signal SIGALRM),
      sigpipe_event = Some (Ev_signal SIGPIPE), sigusr1_event = Some (Ev_signal SIGUSR1),
      sigusr2_event = Some (Ev_signal SIGUSR2), sigchld_event = Some (Ev_signal SIGCHLD),
      sigcont_event = Some (Ev_signal SIGCONT), siginfo_event = None,
      intercept = None, cmnd_pid = 42, ppgrp = 7\<rparr>"

definition example_base :: sudo_event_base where
  "example_base =
     \<lparr>base_id = 1,
      registered = [Ev_read 3, Ev_signal SIGINT, Ev_signal SIGQUIT, Ev_signal SIGTSTP,
        Ev_signal SIGTERM, Ev_signal SIGHUP, Ev_signal SIGALRM, Ev_signal SIGPIPE,
        Ev_signal SIGUSR1, Ev_signal SIGUSR2, Ev_signal SIGCHLD, Ev_signal SIGCONT],
      got_break = False, got_exit = False, freed = False\<rparr>"

text \<open>The state inside the event loop: status still invalid, nothing logged.\<close>

definition example_state :: state where
  "example_state =
     \<lparr>details = \<lparr>flags = 0, evbase = None, execfd = - 1, timeout = 0\<rparr>,
      cstat = \<lparr>type = 0, val = 0\<rparr>,
      ec = example_closure, base = example_base, sigmask = {}, calls = []\<rparr>"

text \<open>
  The system calls of one signal callback: pid 100 is in the supervisor's group 7, the
  command is its own group, any other pid is unknown; \<^verbatim>\<open>kill\<close> succeeds; \<^verbatim>\<open>waitpid\<close>
  reports a descendant 77, then the command exiting with code 1, then nothing.
\<close>

definition example_syscalls :: syscalls where
  "example_syscalls =
     \<lparr>getpgid = (\<lambda>p. if p = 100 then 7 else if p = 42 then 42 else - 1),
      kill = (\<lambda>p sg. 0),
      waitpid = [(77, 0, 0), (42, 256, 0), (0, 0, 0)],
      exec_ptrace_stopped = (\<lambda>p st h. True)\<rparr>"

text \<open>
  The state at the entry of \<^verbatim>\<open>exec_nopty\<close>: a fresh event base at address 1 donated in
  \<open>details\<close>, role-based access control and ptrace interception requested, no signal
  blocked.
\<close>

definition example_entry :: state where
  "example_entry =
     \<lparr>details = \<lparr>flags = 0x401020, evbase = Some 1, execfd = - 1, timeout = 0\<rparr>,
      cstat = \<lparr>type = 0, val = 0\<rparr>,
      ec = ec_zero,
      base = \<lparr>base_id = 1, registered = [], got_break = False, got_exit = False,
              freed = False\<rparr>,
      sigmask = {}, calls = []\<rparr>"

text \<open>
  A run: the fork gives pid 42, the set-up succeeds, another tracer is present, the
  command runs (EOF on the error pipe) and exits with code 1.
\<close>

definition example_env :: env where
  "example_env =
     \<lparr>policy_init_session = True, pipe2_fds = Some (3, 4), socketpair_fds = Some (5, 6),
      sudo_terminated = False, selinux_relabel_tty = 0, relabel_errno = 0,
      sudo_debug_fork = 42, getpgrp = 7,
      ev_alloc_ok = (\<lambda>ev. True), ev_add_rc = (\<lambda>ev. 0),
      intercept_setup = Some 9, exec_ptrace_seize = 0,
      pending = [Fd_readable 3 \<lparr>nread = 0, errval = 0, errno = 0\<rparr>,
                 Signal_delivered SIGCHLD \<lparr>user_signaled = False, si_pid = 42\<rparr>
                   example_syscalls],
      dispatch_rc = 0, selinux_restore_tty = 0\<rparr>"

section \<open>Properties\<close>

subsection \<open>Frame lemmas\<close>

lemma calls_log_call [simp]: "calls (log_call c s) = calls s @ [c]"
  by (simp add: log_call_def)

lemma log_call_fields [simp]:
  "cstat (log_call c s) = cstat s" "ec (log_call c s) = ec s"
  "details (log_call c s) = details s" "base (log_call c s) = base s"
  "sigmask (log_call c s) = sigmask s"
  by (simp_all add: log_call_def)

lemma on_base_fields [simp]:
  "cstat (on_base p f s) = cstat s" "ec (on_base p f s) = ec s"
  "details (on_base p f s) = details s" "calls (on_base p f s) = calls s"
  "sigmask (on_base p f s) = sigmask s"
  by (simp_all add: on_base_def)

lemma new_calls_self [simp]: "new_calls s s = []"
  by (simp add: new_calls_def)

lemma sudo_ev_loopbreak_fields [simp]:
  "cstat (sudo_ev_loopbreak p s) = cstat s" "ec (sudo_ev_loopbreak p s) = ec s"
  "details (sudo_ev_loopbreak p s) = details s" "sigmask (sudo_ev_loopbreak p s) = sigmask s"
  "calls (sudo_ev_loopbreak p s) = calls s @ [Loopbreak p]"
  "base_id (base (sudo_ev_loopbreak p s)) = base_id (base s)"
  "registered (base (sudo_ev_loopbreak p s)) = registered (base s)"
  by (simp_all add: sudo_ev_loopbreak_def on_base_def)

lemma sudo_ev_loopexit_fields [simp]:
  "cstat (sudo_ev_loopexit p s) = cstat s" "ec (sudo_ev_loopexit p s) = ec s"
  "details (sudo_ev_loopexit p s) = details s" "sigmask (sudo_ev_loopexit p s) = sigmask s"
  "calls (sudo_ev_loopexit p s) = calls s @ [Loopexit p]"
  "base_id (base (sudo_ev_loopexit p s)) = base_id (base s)"
  "registered (base (sudo_ev_loopexit p s)) = registered (base s)"
  by (simp_all add: sudo_ev_loopexit_def on_base_def)

lemma sudo_ev_del_fields [simp]:
  "cstat (sudo_ev_del p ev s) = cstat s" "ec (sudo_ev_del p ev s) = ec s"
  "details (sudo_ev_del p ev s) = details s" "sigmask (sudo_ev_del p ev s) = sigmask s"
  "calls (sudo_ev_del p ev s) = calls s @ [Ev_del p ev]"
  "base_id (base (sudo_ev_del p ev s)) = base_id (base s)"
  "got_break (base (sudo_ev_del p ev s)) = got_break (base s)"
  "got_exit (base (sudo_ev_del p ev s)) = got_exit (base s)"
  by (simp_all add: sudo_ev_del_def on_base_def split: option.splits)

lemma registered_sudo_ev_del:
  "registered (base (sudo_ev_del p ev s)) =
     (if p = Some (base_id (base s))
      then (case ev of None \<Rightarrow> registered (base s) | Some e \<Rightarrow> removeAll e (registered (base s)))
      else registered (base s))"
  by (simp add: sudo_ev_del_def on_base_def split: option.splits)

text \<open>The error-pipe callback touches neither the closure, the details nor the mask.\<close>

lemma errpipe_cb_frame [simp]:
  "ec (errpipe_cb P fd r s) = ec s" "details (errpipe_cb P fd r s) = details s"
  "sigmask (errpipe_cb P fd r s) = sigmask s"
  "base_id (base (errpipe_cb P fd r s)) = base_id (base s)"
  by (simp_all add: errpipe_cb_def)

lemma errpipe_cb_registered_subset:
  "set (registered (base (errpipe_cb P fd r s))) \<subseteq> set (registered (base s))"
  by (auto simp add: errpipe_cb_def registered_sudo_ev_del split: option.splits)

lemma errpipe_cb_read_error_registered:
  "nread r = - 1 \<Longrightarrow> registered (base (errpipe_cb P fd r s)) = registered (base s)"
  by (simp add: errpipe_cb_def)

text \<open>The reaper changes the status, \<open>cmnd_pid\<close> and the log only.\<close>

lemma handle_sigchld_nopty_step:
  assumes "handle_sigchld_nopty P k ((pid, status, err) # ws) s = Some s'"
  shows "s' = s \<or> s' = log_call Warn s \<or> handle_sigchld_nopty P k ws s = Some s'
         \<or> handle_sigchld_nopty P k ws
              (log_call (Suspend_sudo_nopty (WSTOPSIG P status) (ppgrp (ec s)) (cmnd_pid (ec s))) s)
             = Some s'
         \<or> handle_sigchld_nopty P k ws
              ((if type (cstat s) = CMD_INVALID P
                then s\<lparr>cstat := (cstat s)\<lparr>type := CMD_WSTATUS P, val := status\<rparr>\<rparr>
                else s)\<lparr>ec := (ec s)\<lparr>cmnd_pid := - 1\<rparr>\<rparr>) = Some s'"
  using assms by (simp split: if_splits)

lemma handle_sigchld_nopty_frame:
  "handle_sigchld_nopty P k ws s = Some s' \<Longrightarrow>
     base s' = base s \<and> details s' = details s \<and> sigmask s' = sigmask s \<and>
     exec_closure_nopty.evbase (ec s') = exec_closure_nopty.evbase (ec s) \<and>
     errpipe_event (ec s') = errpipe_event (ec s)"
proof (induction ws arbitrary: s)
  case Nil
  then show ?case by simp
next
  case (Cons w ws)
  obtain pid status err where w: "w = (pid, status, err)"
    by (cases w) auto
  from Cons.prems have "handle_sigchld_nopty P k ((pid, status, err) # ws) s = Some s'"
    by (simp add: w)
  from handle_sigchld_nopty_step [OF this] show ?case
  proof (elim disjE)
    assume "s' = s"
    then show ?thesis by simp
  next
    assume "s' = log_call Warn s"
    then show ?thesis by simp
  next
    assume "handle_sigchld_nopty P k ws s = Some s'"
    then show ?thesis by (rule Cons.IH)
  next
    assume "handle_sigchld_nopty P k ws
              (log_call (Suspend_sudo_nopty (WSTOPSIG P status) (ppgrp (ec s)) (cmnd_pid (ec s))) s)
             = Some s'"
    from Cons.IH [OF this] show ?thesis by simp
  next
    assume "handle_sigchld_nopty P k ws
              ((if type (cstat s) = CMD_INVALID P
                then s\<lparr>cstat := (cstat s)\<lparr>type := CMD_WSTATUS P, val := status\<rparr>\<rparr>
                else s)\<lparr>ec := (ec s)\<lparr>cmnd_pid := - 1\<rparr>\<rparr>) = Some s'"
    from Cons.IH [OF this] show ?thesis by simp
  qed
qed

lemma send_signal_fields [simp]:
  "cstat (send_signal k signo s) = cstat s" "ec (send_signal k signo s) = ec s"
  "details (send_signal k signo s) = details s" "base (send_signal k signo s) = base s"
  "sigmask (send_signal k signo s) = sigmask s"
  by (simp_all add: send_signal_def)

lemma signal_cb_nopty_frame:
  assumes "signal_cb_nopty P k signo si s = Some s'"
  shows "registered (base s') = registered (base s) \<and> base_id (base s') = base_id (base s) \<and>
         details s' = details s \<and> sigmask s' = sigmask s \<and>
         exec_closure_nopty.evbase (ec s') = exec_closure_nopty.evbase (ec s) \<and>
         errpipe_event (ec s') = errpipe_event (ec s)"
proof (cases "cmnd_pid (ec s) \<noteq> - 1 \<and> signo = SIGCHLD")
  case True
  with assms obtain s1 where s1: "handle_sigchld_nopty P k (waitpid k) s = Some s1"
    and s': "s' = (if cmnd_pid (ec s1) = - 1
                   then sudo_ev_loopexit (exec_closure_nopty.evbase (ec s1)) s1 else s1)"
    by (auto simp add: signal_cb_nopty_def split: option.splits)
  from handle_sigchld_nopty_frame [OF s1] show ?thesis
    unfolding s' by simp
next
  case False
  with assms have "s' = s \<or> s' = send_signal k signo s"
    by (auto simp add: signal_cb_nopty_def split: if_splits)
  then show ?thesis
    by (elim disjE) simp_all
qed

subsection \<open>The error-pipe callback on a read error\<close>

text \<open>
  What lines 90-101 do: \<^verbatim>\<open>EAGAIN\<close> and \<^verbatim>\<open>EINTR\<close> change nothing; any other errno
  breaks the event loop, and stores \<open>ERRNO(errno)\<close> when the field \<open>val\<close> of the status
  (not its \<open>type\<close>) equals \<open>CMD_INVALID\<close>.
\<close>

lemma errpipe_cb_eagain_eintr:
  "nread r = - 1 \<Longrightarrow> errno r = EAGAIN P \<or> errno r = EINTR P \<Longrightarrow> errpipe_cb P fd r s = s"
  by (auto simp add: errpipe_cb_def)

lemma errpipe_cb_read_error:
  assumes "nread r = - 1" and "errno r \<noteq> EAGAIN P" and "errno r \<noteq> EINTR P"
  shows "cstat (errpipe_cb P fd r s) =
           (if val (cstat s) = CMD_INVALID P then \<lparr>type = CMD_ERRNO P, val = errno r\<rparr>
            else cstat s)"
    and "new_calls s (errpipe_cb P fd r s) = [Loopbreak (exec_closure_nopty.evbase (ec s))]"
    and "exec_closure_nopty.evbase (ec s) = Some (base_id (base s))
           \<Longrightarrow> got_break (base (errpipe_cb P fd r s))"
  using assms
  by (simp_all add: errpipe_cb_def new_calls_def sudo_ev_loopbreak_def on_base_def)

text \<open>
  C1 (the code departs from the specification).  Specified: on a read error other than
  \<^verbatim>\<open>EAGAIN\<close>/\<^verbatim>\<open>EINTR\<close> the callback stores \<open>ERRNO(errno)\<close> if and only if
  \<open>cstat.type\<close> is \<open>INVALID\<close>.  Line 92 tests \<^verbatim>\<open>ec->cstat->val == CMD_INVALID\<close>, the
  value and not the type (the reaper, line 571, tests the type).  With \<^verbatim>\<open>read\<close>
  failing with errno 5: a status \<open>WSTATUS(0)\<close>, an exit with code 0, is overwritten by
  \<open>ERRNO(5)\<close> though its type is not \<open>INVALID\<close>; and a status of type \<open>INVALID\<close> whose
  value field holds 9 is left as it is.
\<close>

theorem errpipe_cb_read_error_tests_val_not_type:
  "cstat (errpipe_cb example_platform 3 \<lparr>nread = - 1, errval = 0, errno = 5\<rparr>
            (example_state\<lparr>cstat := \<lparr>type = 2, val = 0\<rparr>\<rparr>)) = \<lparr>type = 1, val = 5\<rparr>
   \<and> cstat (errpipe_cb example_platform 3 \<lparr>nread = - 1, errval = 0, errno = 5\<rparr>
            (example_state\<lparr>cstat := \<lparr>type = 0, val = 9\<rparr>\<rparr>)) = \<lparr>type = 0, val = 9\<rparr>"
  by (simp add: errpipe_cb_def example_platform_def example_state_def)

subsection \<open>The error-pipe callback on a value\<close>

text \<open>
  C9.  When \<^verbatim>\<open>read\<close> returns a nonzero number of bytes, the callback stores
  \<open>ERRNO(errval)\<close> whatever the status held before: there is no test on this branch.
\<close>

theorem errpipe_cb_value_overwrites:
  "0 < nread r \<Longrightarrow>
     type (cstat (errpipe_cb P fd r s)) = CMD_ERRNO P \<and>
     val (cstat (errpipe_cb P fd r s)) = errval r"
  by (simp add: errpipe_cb_def)

text \<open>The instance: four bytes holding 2 arrive while the status is \<open>WSTATUS(0)\<close>.\<close>

theorem errpipe_cb_value_overwrites_witness:
  "type (cstat (errpipe_cb example_platform 3 \<lparr>nread = 4, errval = 2, errno = 0\<rparr>
                  (example_state\<lparr>cstat := \<lparr>type = 2, val = 0\<rparr>\<rparr>))) = 1
   \<and> val (cstat (errpipe_cb example_platform 3 \<lparr>nread = 4, errval = 2, errno = 0\<rparr>
                  (example_state\<lparr>cstat := \<lparr>type = 2, val = 0\<rparr>\<rparr>))) = 2"
  using errpipe_cb_value_overwrites
    [where r = "\<lparr>nread = 4, errval = 2, errno = 0\<rparr>" and P = example_platform and fd = 3
       and s = "example_state\<lparr>cstat := \<lparr>type = 2, val = 0\<rparr>\<rparr>"]
  by (simp add: example_platform_def)

subsection \<open>The signal callback\<close>

lemma new_calls_send_signal:
  "new_calls s (send_signal k signo s) =
     (if signo = SIGALRM then [Terminate_command (cmnd_pid (ec s)) False]
      else if kill k (cmnd_pid (ec s)) signo \<noteq> 0 then [Kill (cmnd_pid (ec s)) signo, Warn]
      else [Kill (cmnd_pid (ec s)) signo])"
  by (simp add: send_signal_def new_calls_def)

text \<open>
  C6.  While \<open>cmnd_pid\<close> is \<open>-1\<close> the callback returns at once for every signal: the
  state, and with it the log of calls, is unchanged, so nothing is sent to the command.
\<close>

theorem signal_cb_nopty_no_child:
  "cmnd_pid (ec s) = - 1 \<Longrightarrow> signal_cb_nopty P k signo si s = Some s"
  by (simp add: signal_cb_nopty_def)

theorem signal_cb_nopty_no_child_witness:
  "signal_cb_nopty example_platform example_syscalls SIGINT \<lparr>user_signaled = True, si_pid = 0\<rparr>
     (example_state\<lparr>ec := example_closure\<lparr>cmnd_pid := - 1\<rparr>\<rparr>)
   = Some (example_state\<lparr>ec := example_closure\<lparr>cmnd_pid := - 1\<rparr>\<rparr>)"
  using signal_cb_nopty_no_child
    [where s = "example_state\<lparr>ec := example_closure\<lparr>cmnd_pid := - 1\<rparr>\<rparr>"
       and P = example_platform and k = example_syscalls and signo = SIGINT
       and si = "\<lparr>user_signaled = True, si_pid = 0\<rparr>"]
  by simp

text \<open>
  C4.  For \<^verbatim>\<open>SIGINT\<close>, \<^verbatim>\<open>SIGQUIT\<close>, \<^verbatim>\<open>SIGTSTP\<close> and (where defined) \<^verbatim>\<open>SIGINFO\<close>, with a
  command running: the callback returns; \<^verbatim>\<open>kill(cmnd_pid, signo)\<close> is called only if the
  signal was user-generated; and if it was user-generated by a nonzero pid whose
  process group is the supervisor's \<open>ppgrp\<close> or the command's pid, or whose group
  lookup fails while the sender is the command, no \<^verbatim>\<open>kill\<close> is made: the state is
  unchanged.
\<close>

theorem signal_cb_nopty_self_suspend_class:
  assumes "signo \<in> {SIGINT, SIGQUIT, SIGTSTP, SIGINFO}"
      and "signo = SIGINFO \<longrightarrow> SIGINFO_defined P"
      and "cmnd_pid (ec s) \<noteq> - 1"
  shows "\<exists>s'. signal_cb_nopty P k signo si s = Some s' \<and>
           (Kill (cmnd_pid (ec s)) signo \<in> set (new_calls s s') \<longrightarrow> user_signaled si) \<and>
           (user_signaled si \<and> si_pid si \<noteq> 0 \<and>
            (getpgid k (si_pid si) \<noteq> - 1 \<and>
               (getpgid k (si_pid si) = ppgrp (ec s) \<or> getpgid k (si_pid si) = cmnd_pid (ec s))
             \<or> getpgid k (si_pid si) = - 1 \<and> si_pid si = cmnd_pid (ec s))
            \<longrightarrow> Kill (cmnd_pid (ec s)) signo \<notin> set (new_calls s s') \<and> s' = s)"
  using assms
  by (auto simp add: signal_cb_nopty_def sent_from_own_pgrp_def Let_def new_calls_send_signal)

text \<open>The instance: \<^verbatim>\<open>SIGTSTP\<close> sent by pid 100, which is in the supervisor's group 7.\<close>

theorem signal_cb_nopty_self_suspend_class_witness:
  "signal_cb_nopty example_platform example_syscalls SIGTSTP
     \<lparr>user_signaled = True, si_pid = 100\<rparr> example_state = Some example_state
   \<and> Kill 42 SIGTSTP \<notin> set (new_calls example_state example_state)"
  using signal_cb_nopty_self_suspend_class
    [where signo = SIGTSTP and P = example_platform and s = example_state
       and k = example_syscalls and si = "\<lparr>user_signaled = True, si_pid = 100\<rparr>"]
  by (auto simp add: example_state_def example_closure_def example_syscalls_def)

text \<open>
  C5, as stated, fails: a \<^verbatim>\<open>SIGALRM\<close> takes the default branch of the switch (lines
  171-187), whose guard returns before line 191 when the signal was sent by a process
  of the supervisor's or the command's group.  Here pid 100, in the supervisor's group
  7, sends \<^verbatim>\<open>SIGALRM\<close> while command 42 runs: the callback returns the state as it
  was, and no \<^verbatim>\<open>terminate_command\<close> is logged.
\<close>

theorem signal_cb_nopty_sigalrm_counterexample:
  "signal_cb_nopty example_platform example_syscalls SIGALRM
     \<lparr>user_signaled = True, si_pid = 100\<rparr> example_state = Some example_state
   \<and> cmnd_pid (ec example_state) = 42
   \<and> new_calls example_state example_state = []"
  by (simp add: signal_cb_nopty_def sent_from_own_pgrp_def example_state_def
      example_syscalls_def example_closure_def)

text \<open>
  C5, amended.  For every \<^verbatim>\<open>SIGALRM\<close> delivered while a command runs, the callback
  returns and never calls \<^verbatim>\<open>kill\<close> with \<^verbatim>\<open>SIGALRM\<close>.  When the signal is
  user-generated by a nonzero pid of the supervisor's or the command's process group
  (or the lookup fails and the sender is the command), nothing is done; in every other
  case, a timeout raised by the kernel among them, the only call is
  \<^verbatim>\<open>terminate_command(cmnd_pid, false)\<close>.
\<close>

theorem signal_cb_nopty_sigalrm:
  assumes "cmnd_pid (ec s) \<noteq> - 1"
  shows "\<exists>s'. signal_cb_nopty P k SIGALRM si s = Some s' \<and>
           (\<forall>pid. Kill pid SIGALRM \<notin> set (new_calls s s')) \<and>
           (if user_signaled si \<and> si_pid si \<noteq> 0 \<and> sent_from_own_pgrp k si s
            then s' = s
            else new_calls s s' = [Terminate_command (cmnd_pid (ec s)) False])"
  using assms
  by (auto simp add: signal_cb_nopty_def new_calls_send_signal)

text \<open>The instance: the alarm set by \<^verbatim>\<open>alarm\<close> expires (a signal from the kernel).\<close>

theorem signal_cb_nopty_sigalrm_witness:
  "\<exists>s'. signal_cb_nopty example_platform example_syscalls SIGALRM
          \<lparr>user_signaled = False, si_pid = 0\<rparr> example_state = Some s' \<and>
        new_calls example_state s' = [Terminate_command 42 False]"
  using signal_cb_nopty_sigalrm
    [where s = example_state and P = example_platform and k = example_syscalls
       and si = "\<lparr>user_signaled = False, si_pid = 0\<rparr>"]
  by (auto simp add: example_state_def example_closure_def)

subsection \<open>The reaper\<close>

lemma not_stopped_if_exited_or_signaled:
  "WIFEXITED P status \<or> WIFSIGNALED P status \<Longrightarrow> \<not> WIFSTOPPED P status"
  by (auto simp add: WIFEXITED_def WIFSIGNALED_def WIFSTOPPED_def split: wait_kind.splits)

text \<open>Once \<open>cmnd_pid\<close> is \<open>-1\<close> no later result of \<^verbatim>\<open>waitpid\<close> touches the status.\<close>

lemma handle_sigchld_nopty_reaped:
  "cmnd_pid (ec s) = - 1 \<Longrightarrow> handle_sigchld_nopty P k ws s = Some s' \<Longrightarrow>
     cstat s' = cstat s \<and> cmnd_pid (ec s') = - 1"
proof (induction ws arbitrary: s)
  case Nil
  then show ?case by simp
next
  case (Cons w ws)
  obtain pid status err where w: "w = (pid, status, err)"
    by (cases w) auto
  from Cons.prems(2) have "handle_sigchld_nopty P k ((pid, status, err) # ws) s = Some s'"
    by (simp add: w)
  then have "s' = s \<or> s' = log_call Warn s \<or> handle_sigchld_nopty P k ws s = Some s'
     \<or> handle_sigchld_nopty P k ws
          (log_call (Suspend_sudo_nopty (WSTOPSIG P status) (ppgrp (ec s)) (cmnd_pid (ec s))) s)
         = Some s'"
    using Cons.prems(1) by (simp split: if_splits)
  then show ?case
  proof (elim disjE)
    assume "s' = s"
    with Cons.prems(1) show ?thesis by simp
  next
    assume "s' = log_call Warn s"
    with Cons.prems(1) show ?thesis by simp
  next
    assume "handle_sigchld_nopty P k ws s = Some s'"
    with Cons.prems(1) show ?thesis by (rule Cons.IH)
  next
    assume "handle_sigchld_nopty P k ws
          (log_call (Suspend_sudo_nopty (WSTOPSIG P status) (ppgrp (ec s)) (cmnd_pid (ec s))) s)
         = Some s'"
    with Cons.prems(1) Cons.IH [of "log_call (Suspend_sudo_nopty (WSTOPSIG P status)
        (ppgrp (ec s)) (cmnd_pid (ec s))) s"]
    show ?thesis by simp
  qed
qed

text \<open>A result for another child (a descendant) leaves the state as it is.\<close>

lemma handle_sigchld_nopty_other_children:
  "\<forall>w\<in>set pre. fst w \<notin> {- 1, 0, cmnd_pid (ec s)} \<Longrightarrow>
     handle_sigchld_nopty P k (pre @ rest) s = handle_sigchld_nopty P k rest s"
proof (induction pre)
  case Nil
  then show ?case by simp
next
  case (Cons w pre)
  obtain pid status err where w: "w = (pid, status, err)"
    by (cases w) auto
  from Cons show ?case
    unfolding w by simp
qed

text \<open>
  The drain loop returns as soon as \<^verbatim>\<open>waitpid\<close> gives 0, or \<open>-1\<close> with an errno other
  than \<^verbatim>\<open>EINTR\<close>.
\<close>

lemma handle_sigchld_nopty_returns:
  "\<exists>w\<in>set ws. fst w = 0 \<or> (fst w = - 1 \<and> snd (snd w) \<noteq> EINTR P) \<Longrightarrow>
     \<exists>s'. handle_sigchld_nopty P k ws s = Some s'"
proof (induction ws arbitrary: s)
  case Nil
  then show ?case by simp
next
  case (Cons w ws)
  obtain pid status err where w: "w = (pid, status, err)"
    by (cases w) auto
  show ?case
  proof (cases "fst w = 0 \<or> (fst w = - 1 \<and> snd (snd w) \<noteq> EINTR P)")
    case True
    then show ?thesis unfolding w by auto
  next
    case False
    with Cons.prems have "\<exists>w\<in>set ws. fst w = 0 \<or> (fst w = - 1 \<and> snd (snd w) \<noteq> EINTR P)"
      by auto
    then have "\<And>s. \<exists>s'. handle_sigchld_nopty P k ws s = Some s'"
      by (rule Cons.IH)
    then show ?thesis
      unfolding w by simp
  qed
qed

text \<open>
  C3.  The drain loop meets the main child (\<open>pid = cmnd_pid\<close>, a real pid) exited or
  killed by a signal, after any number of results for other children.  When the loop
  returns, \<open>cmnd_pid\<close> is \<open>-1\<close>; the status is \<open>WSTATUS(status)\<close> if its type was
  \<open>INVALID\<close>, and is unchanged otherwise.
\<close>

theorem handle_sigchld_nopty_main_child:
  assumes main: "cmnd_pid (ec s) = pid" and pos: "0 < pid"
      and st: "WIFEXITED P status \<or> WIFSIGNALED P status"
      and pre: "\<forall>w\<in>set pre. fst w \<notin> {- 1, 0, pid}"
      and run: "handle_sigchld_nopty P k (pre @ (pid, status, err) # post) s = Some s'"
  shows "cmnd_pid (ec s') = - 1 \<and>
         cstat s' = (if type (cstat s) = CMD_INVALID P
                     then \<lparr>type = CMD_WSTATUS P, val = status\<rparr> else cstat s)"
proof -
  let ?s1 = "(if type (cstat s) = CMD_INVALID P
              then s\<lparr>cstat := (cstat s)\<lparr>type := CMD_WSTATUS P, val := status\<rparr>\<rparr>
              else s)\<lparr>ec := (ec s)\<lparr>cmnd_pid := - 1\<rparr>\<rparr>"
  from pre main have "handle_sigchld_nopty P k (pre @ (pid, status, err) # post) s
      = handle_sigchld_nopty P k ((pid, status, err) # post) s"
    by (intro handle_sigchld_nopty_other_children) simp
  also from main pos not_stopped_if_exited_or_signaled [OF st]
  have "\<dots> = handle_sigchld_nopty P k post ?s1"
    by simp
  finally have "handle_sigchld_nopty P k post ?s1 = Some s'"
    using run by simp
  moreover have "cmnd_pid (ec ?s1) = - 1"
    by simp
  ultimately have "cstat s' = cstat ?s1 \<and> cmnd_pid (ec s') = - 1"
    by (rule handle_sigchld_nopty_reaped [rotated])
  then show ?thesis
    by simp
qed

text \<open>
  The instance: a descendant 77 is reaped, then command 42 with status 256 (exit code
  1), then nothing is left; the status was \<open>INVALID\<close> and becomes \<open>WSTATUS(256)\<close>.
\<close>

lemma example_reaper_run:
  "handle_sigchld_nopty example_platform example_syscalls [(77, 0, 0), (42, 256, 0), (0, 0, 0)]
     example_state
   = Some (example_state\<lparr>cstat := \<lparr>type = 2, val = 256\<rparr>,
                          ec := example_closure\<lparr>cmnd_pid := - 1\<rparr>\<rparr>)"
  by (simp add: example_state_def example_closure_def example_platform_def WIFSTOPPED_def
      linux_wstatus_def)

theorem handle_sigchld_nopty_main_child_witness:
  "\<exists>s'. handle_sigchld_nopty example_platform example_syscalls
           [(77, 0, 0), (42, 256, 0), (0, 0, 0)] example_state = Some s' \<and>
        cmnd_pid (ec s') = - 1 \<and> cstat s' = \<lparr>type = 2, val = 256\<rparr>"
proof -
  have a: "cmnd_pid (ec example_state) = 42"
    by (simp add: example_state_def example_closure_def)
  have b: "WIFEXITED example_platform 256 \<or> WIFSIGNALED example_platform 256"
    by (simp add: WIFEXITED_def example_platform_def linux_wstatus_def)
  have c: "\<forall>w\<in>set [(77, 0, 0)]. fst w \<notin> {- 1, 0, 42::int}"
    by simp
  have d: "handle_sigchld_nopty example_platform example_syscalls
             ([(77, 0, 0)] @ (42, 256, 0) # [(0, 0, 0)]) example_state
           = Some (example_state\<lparr>cstat := \<lparr>type = 2, val = 256\<rparr>,
                                  ec := example_closure\<lparr>cmnd_pid := - 1\<rparr>\<rparr>)"
    using example_reaper_run by simp
  from handle_sigchld_nopty_main_child [OF a _ b c d] show ?thesis
    using d by (simp add: example_state_def example_platform_def)
qed

subsection \<open>The intercept set-up\<close>

lemma ISSET_CLR_part:
  "a AND m = a \<Longrightarrow> \<not> ISSET (CLR f m) a"
proof -
  assume "a AND m = a"
  then have "(f AND NOT m) AND a = (f AND NOT m) AND (a AND m)"
    by simp
  also have "\<dots> = 0"
    by (auto simp add: bit_eq_iff bit_and_iff bit_not_iff)
  finally show ?thesis
    by (simp add: ISSET_def CLR_def)
qed

lemma or3_parts:
  "a AND (a OR b OR c) = (a :: 32 word)" "b AND (a OR b OR c) = b" "c AND (a OR b OR c) = c"
  by (auto simp add: bit_eq_iff bit_and_iff bit_or_iff)

text \<open>
  C8.  With intercept or subcommand logging requested: if \<^verbatim>\<open>intercept_setup\<close> returns
  null, \<^verbatim>\<open>terminate_command(cmnd_pid, true)\<close> is called; if it succeeds, \<^verbatim>\<open>USE_PTRACE\<close> is
  set and \<^verbatim>\<open>exec_ptrace_seize\<close> returns 0, the three flags are cleared from
  \<open>details.flags\<close> and nothing is terminated; if it returns \<open>-1\<close>, the child is terminated.
\<close>

theorem exec_nopty_intercept_outcomes:
  assumes "ISSET (flags (details s)) (CD_INTERCEPT P OR CD_LOG_SUBCMDS P)"
  shows "(intercept_setup e = None \<longrightarrow>
            new_calls s (exec_nopty_intercept P e s) = [Terminate_command (cmnd_pid (ec s)) True])
       \<and> (intercept_setup e \<noteq> None \<and> ISSET (flags (details s)) (CD_USE_PTRACE P)
            \<and> exec_ptrace_seize e = 0 \<longrightarrow>
            \<not> ISSET (flags (details (exec_nopty_intercept P e s))) (CD_INTERCEPT P)
            \<and> \<not> ISSET (flags (details (exec_nopty_intercept P e s))) (CD_LOG_SUBCMDS P)
            \<and> \<not> ISSET (flags (details (exec_nopty_intercept P e s))) (CD_USE_PTRACE P)
            \<and> new_calls s (exec_nopty_intercept P e s) = [])
       \<and> (intercept_setup e \<noteq> None \<and> ISSET (flags (details s)) (CD_USE_PTRACE P)
            \<and> exec_ptrace_seize e = - 1 \<longrightarrow>
            new_calls s (exec_nopty_intercept P e s) = [Terminate_command (cmnd_pid (ec s)) True])"
  using assms
  by (auto simp add: exec_nopty_intercept_def new_calls_def ISSET_CLR_part or3_parts)

text \<open>The instance: interception by ptrace requested, another tracer present.\<close>

theorem exec_nopty_intercept_outcomes_witness:
  "\<not> ISSET (flags (details (exec_nopty_intercept example_platform example_env
                   (example_state\<lparr>details := details example_entry\<rparr>)))) 0x20
   \<and> \<not> ISSET (flags (details (exec_nopty_intercept example_platform example_env
                   (example_state\<lparr>details := details example_entry\<rparr>)))) 0x200000
   \<and> \<not> ISSET (flags (details (exec_nopty_intercept example_platform example_env
                   (example_state\<lparr>details := details example_entry\<rparr>)))) 0x400000
   \<and> new_calls (example_state\<lparr>details := details example_entry\<rparr>)
        (exec_nopty_intercept example_platform example_env
           (example_state\<lparr>details := details example_entry\<rparr>)) = []"
proof -
  have a: "ISSET (flags (details (example_state\<lparr>details := details example_entry\<rparr>)))
             (CD_INTERCEPT example_platform OR CD_LOG_SUBCMDS example_platform)"
    by (simp add: ISSET_def example_entry_def example_platform_def)
  have b: "intercept_setup example_env \<noteq> None \<and>
           ISSET (flags (details (example_state\<lparr>details := details example_entry\<rparr>)))
             (CD_USE_PTRACE example_platform) \<and> exec_ptrace_seize example_env = 0"
    by (simp add: ISSET_def example_entry_def example_platform_def example_env_def)
  from exec_nopty_intercept_outcomes [OF a, of example_env] b show ?thesis
    by (simp add: example_platform_def)
qed

subsection \<open>What the supervisor leaves of the caller's state\<close>

lemma alloc_and_add_frame:
  assumes "alloc_and_add e ev f s = Inr s'"
      and "\<forall>g c. exec_closure_nopty.evbase (f g c) = exec_closure_nopty.evbase c"
  shows "details s' = details s \<and> sigmask s' = sigmask s \<and> cstat s' = cstat s \<and>
         exec_closure_nopty.evbase (ec s') = exec_closure_nopty.evbase (ec s) \<and>
         base_id (base s') = base_id (base s)"
  using assms
  by (auto simp add: alloc_and_add_def sudo_ev_add_def on_base_def split: if_splits)

lemma alloc_and_add_all_frame:
  assumes "alloc_and_add_all e evs s = Inr s'"
      and "\<forall>x\<in>set evs. \<forall>g c.
             exec_closure_nopty.evbase (snd x g c) = exec_closure_nopty.evbase c"
  shows "details s' = details s \<and> sigmask s' = sigmask s \<and> cstat s' = cstat s \<and>
         exec_closure_nopty.evbase (ec s') = exec_closure_nopty.evbase (ec s) \<and>
         base_id (base s') = base_id (base s)"
  using assms
proof (induction evs arbitrary: s)
  case Nil
  then show ?case by simp
next
  case (Cons x evs)
  obtain ev f where x: "x = (ev, f)"
    by (cases x) auto
  from Cons.prems(1) obtain s1 where s1: "alloc_and_add e ev f s = Inr s1"
    and rest: "alloc_and_add_all e evs s1 = Inr s'"
    by (auto simp add: x split: sum.splits)
  have f: "\<forall>g c. exec_closure_nopty.evbase (f g c) = exec_closure_nopty.evbase c"
    using Cons.prems(2) by (simp add: x)
  have evs: "\<forall>x\<in>set evs. \<forall>g c.
               exec_closure_nopty.evbase (snd x g c) = exec_closure_nopty.evbase c"
    using Cons.prems(2) by simp
  have "details s' = details s1 \<and> sigmask s' = sigmask s1 \<and> cstat s' = cstat s1 \<and>
         exec_closure_nopty.evbase (ec s') = exec_closure_nopty.evbase (ec s1) \<and>
         base_id (base s') = base_id (base s1)"
    using rest evs by (rule Cons.IH)
  with alloc_and_add_frame [OF s1 f] show ?case by simp
qed

lemma fill_exec_closure_nopty_frame:
  assumes "fill_exec_closure_nopty P e errfd s = Inr s'"
  shows "details s' = (details s)\<lparr>command_details.evbase := None\<rparr> \<and>
         sigmask s' = sigmask s \<and> cstat s' = cstat s \<and>
         exec_closure_nopty.evbase (ec s') = command_details.evbase (details s) \<and>
         base_id (base s') = base_id (base s)"
proof -
  let ?s1 = "s\<lparr>ec := (ec s)\<lparr>ppgrp := getpgrp e,
                exec_closure_nopty.evbase := command_details.evbase (details s)\<rparr>,
              details := (details s)\<lparr>command_details.evbase := None\<rparr>\<rparr>"
  let ?evs = "[(Ev_read errfd, errpipe_event_update),
                (Ev_signal SIGINT, sigint_event_update),
                (Ev_signal SIGQUIT, sigquit_event_update),
                (Ev_signal SIGTSTP, sigtstp_event_update),
                (Ev_signal SIGTERM, sigterm_event_update),
                (Ev_signal SIGHUP, sighup_event_update),
                (Ev_signal SIGALRM, sigalrm_event_update),
                (Ev_signal SIGPIPE, sigpipe_event_update),
                (Ev_signal SIGUSR1, sigusr1_event_update),
                (Ev_signal SIGUSR2, sigusr2_event_update),
                (Ev_signal SIGCHLD, sigchld_event_update),
                (Ev_signal SIGCONT, sigcont_event_update)]
               @ (if SIGINFO_defined P then [(Ev_signal SIGINFO, siginfo_event_update)] else [])"
  from assms obtain s2 where run: "alloc_and_add_all e ?evs ?s1 = Inr s2"
    and s': "s' = log_call (Ev_base_setdef (exec_closure_nopty.evbase (ec s2))) s2"
    unfolding fill_exec_closure_nopty_def Let_def
    by (auto split: sum.splits simp del: alloc_and_add_all.simps)
  have "\<forall>x\<in>set ?evs. \<forall>g c.
          exec_closure_nopty.evbase (snd x g c) = exec_closure_nopty.evbase c"
    by simp
  with run have "details s2 = details ?s1 \<and> sigmask s2 = sigmask ?s1 \<and> cstat s2 = cstat ?s1 \<and>
         exec_closure_nopty.evbase (ec s2) = exec_closure_nopty.evbase (ec ?s1) \<and>
         base_id (base s2) = base_id (base ?s1)"
    by (rule alloc_and_add_all_frame)
  then show ?thesis
    unfolding s' by simp
qed

lemma exec_nopty_intercept_frame [simp]:
  "sigmask (exec_nopty_intercept P e s) = sigmask s"
  "cstat (exec_nopty_intercept P e s) = cstat s"
  "base (exec_nopty_intercept P e s) = base s"
  "command_details.evbase (details (exec_nopty_intercept P e s))
     = command_details.evbase (details s)"
  "exec_closure_nopty.evbase (ec (exec_nopty_intercept P e s)) = exec_closure_nopty.evbase (ec s)"
  by (simp_all add: exec_nopty_intercept_def Let_def)

lemma free_exec_closure_nopty_frame [simp]:
  "sigmask (free_exec_closure_nopty s) = sigmask s"
  "cstat (free_exec_closure_nopty s) = cstat s"
  "details (free_exec_closure_nopty s) = details s"
  "ec (free_exec_closure_nopty s) = ec s"
  by (simp_all add: free_exec_closure_nopty_def sudo_ev_base_free_def Let_def)

lemma free_exec_closure_nopty_freed:
  "exec_closure_nopty.evbase (ec s) = Some (base_id (base s))
     \<Longrightarrow> freed (base (free_exec_closure_nopty s))"
  by (simp add: free_exec_closure_nopty_def sudo_ev_base_free_def on_base_def Let_def)

lemma run_events_step:
  assumes "run_events P (oc # ocs) s = Some (s', d)"
  shows "(s' = s \<and> d = [])
       \<or> run_events P ocs s = Some (s', d)
       \<or> (\<exists>fd r d'. oc = Fd_readable fd r \<and> Ev_read fd \<in> set (registered (base s))
             \<and> run_events P ocs (errpipe_cb P fd r s) = Some (s', d') \<and> d = oc # d')
       \<or> (\<exists>signo si k s1 d'. oc = Signal_delivered signo si k
             \<and> signal_cb_nopty P k signo si s = Some s1
             \<and> run_events P ocs s1 = Some (s', d') \<and> d = oc # d')"
  using assms
  by (cases oc) (auto split: if_splits option.splits)

text \<open>The event loop changes neither the details, the mask nor the closure's pointers.\<close>

lemma run_events_frame:
  "run_events P ocs s = Some (s', d) \<Longrightarrow>
     details s' = details s \<and> sigmask s' = sigmask s \<and>
     exec_closure_nopty.evbase (ec s') = exec_closure_nopty.evbase (ec s) \<and>
     errpipe_event (ec s') = errpipe_event (ec s) \<and>
     base_id (base s') = base_id (base s)"
proof (induction ocs arbitrary: s d)
  case Nil
  then show ?case by (simp split: if_splits)
next
  case (Cons oc ocs)
  from run_events_step [OF Cons.prems] show ?case
  proof (elim disjE exE conjE)
    assume "s' = s"
    then show ?thesis by simp
  next
    assume "run_events P ocs s = Some (s', d)"
    then show ?thesis by (rule Cons.IH)
  next
    fix fd r d'
    assume "run_events P ocs (errpipe_cb P fd r s) = Some (s', d')"
    from Cons.IH [OF this] show ?thesis by simp
  next
    fix signo si k s1 d'
    assume cb: "signal_cb_nopty P k signo si s = Some s1"
      and "run_events P ocs s1 = Some (s', d')"
    from Cons.IH [OF this(2)] signal_cb_nopty_frame [OF cb] show ?thesis by simp
  qed
qed

lemma sudo_ev_dispatch_frame:
  assumes "sudo_ev_dispatch P p ocs s = Some (s', d)"
  shows "details s' = details s \<and> sigmask s' = sigmask s \<and>
     exec_closure_nopty.evbase (ec s') = exec_closure_nopty.evbase (ec s) \<and>
     errpipe_event (ec s') = errpipe_event (ec s) \<and>
     base_id (base s') = base_id (base s)"
proof (cases "p = Some (base_id (base s))")
  case True
  with assms have "run_events P ocs s = Some (s', d)"
    by (simp add: sudo_ev_dispatch_def)
  then show ?thesis by (rule run_events_frame)
next
  case False
  with assms show ?thesis
    by (simp add: sudo_ev_dispatch_def)
qed

text \<open>
  The parent after the fork: when it returns, the mask is the saved one, the caller's
  \<open>details.evbase\<close> is \<^verbatim>\<open>NULL\<close>, and the donated base has been freed.
\<close>

lemma exec_nopty_parent_frame:
  assumes "exec_nopty_parent P e errpipe intercept_sv oset s = Inr s'"
  shows "sigmask s' = oset \<and> command_details.evbase (details s') = None \<and>
         (command_details.evbase (details s) = Some (base_id (base s)) \<longrightarrow> freed (base s'))"
proof -
  define s4 where "s4 =
    (let s1 = log_call (Close (snd errpipe)) s;
         s2 = (if snd intercept_sv \<noteq> - 1 then log_call (Close (snd intercept_sv)) s1 else s1);
         s3 = (if execfd (details s2) \<noteq> - 1
               then (log_call (Close (execfd (details s2))) s2)
                      \<lparr>details := (details s2)\<lparr>execfd := - 1\<rparr>\<rparr>
               else s2)
     in (if ISSET (flags (details s3)) (CD_SET_TIMEOUT P)
         then log_call (Alarm (timeout (details s3))) s3 else s3))"
  have s4: "command_details.evbase (details s4) = command_details.evbase (details s)"
    "base s4 = base s"
    by (simp_all add: s4_def Let_def)
  from assms obtain s5 where fill: "fill_exec_closure_nopty P e (fst errpipe) s4 = Inr s5"
    unfolding exec_nopty_parent_def s4_def Let_def
    by (auto split: sum.splits)
  define s7 where "s7 = (exec_nopty_intercept P e s5)\<lparr>sigmask := oset\<rparr>"
  from assms fill obtain s8 d
    where disp: "sudo_ev_dispatch P (exec_closure_nopty.evbase (ec s7)) (pending e) s7 = Some (s8, d)"
    unfolding exec_nopty_parent_def s4_def s7_def Let_def
    by (auto split: sum.splits option.splits)
  define s11 where "s11 =
    (let s9 = (if dispatch_rc e = - 1 then log_call Warn s8 else s8);
         s10 = (if sudo_ev_got_break (exec_closure_nopty.evbase (ec s9)) s9
                then (log_call (Terminate_command (cmnd_pid (ec s9)) True) s9)
                       \<lparr>ec := (ec s9)\<lparr>cmnd_pid := - 1\<rparr>\<rparr>
                else s9)
     in (if HAVE_SELINUX P \<and> ISSET (flags (details s10)) (CD_RBAC_ENABLED P)
            \<and> selinux_restore_tty e \<noteq> 0
         then log_call Warn s10 else s10))"
  from assms fill disp have s': "s' = free_exec_closure_nopty s11"
    unfolding exec_nopty_parent_def s4_def s7_def s11_def Let_def
    by (auto split: sum.splits option.splits)
  have s11: "details s11 = details s8" "sigmask s11 = sigmask s8" "base s11 = base s8"
    "exec_closure_nopty.evbase (ec s11) = exec_closure_nopty.evbase (ec s8)"
    by (simp_all add: s11_def Let_def)
  have s7: "sigmask s7 = oset"
    "command_details.evbase (details s7) = command_details.evbase (details s5)"
    "exec_closure_nopty.evbase (ec s7) = exec_closure_nopty.evbase (ec s5)"
    "base s7 = base s5"
    by (simp_all add: s7_def)
  note f5 = fill_exec_closure_nopty_frame [OF fill]
  note f8 = sudo_ev_dispatch_frame [OF disp]
  have mask: "sigmask s' = oset"
    using s' s11 f8 s7 by simp
  have null: "command_details.evbase (details s') = None"
    using s' s11 f8 s7 f5 by simp
  have "freed (base s')" if "command_details.evbase (details s) = Some (base_id (base s))"
  proof -
    have "exec_closure_nopty.evbase (ec s11) = Some (base_id (base s11))"
      using that s11 f8 s7 f5 s4 by simp
    then show ?thesis
      unfolding s' by (rule free_exec_closure_nopty_freed)
  qed
  with mask null show ?thesis by simp
qed

text \<open>The three ways \<^verbatim>\<open>exec_nopty\<close> returns to its caller.\<close>

lemma exec_nopty_returns:
  assumes "exec_nopty P e s = Inr s'"
  shows "(sudo_terminated e \<and> s' = s\<lparr>ec := ec_zero, sigmask := sigmask s\<rparr>)
       \<or> (\<not> sudo_terminated e \<and> HAVE_SELINUX P \<and> ISSET (flags (details s)) (CD_RBAC_ENABLED P)
            \<and> selinux_relabel_tty e = - 1
            \<and> s' = s\<lparr>ec := ec_zero, sigmask := UNIV,
                      cstat := (cstat s)\<lparr>type := CMD_ERRNO P, val := relabel_errno e\<rparr>\<rparr>)
       \<or> (\<not> sudo_terminated e
            \<and> \<not> (HAVE_SELINUX P \<and> ISSET (flags (details s)) (CD_RBAC_ENABLED P)
                   \<and> selinux_relabel_tty e = - 1)
            \<and> (\<exists>errpipe intercept_sv s3.
                  exec_nopty_parent P e errpipe intercept_sv (sigmask s) s3 = Inr s'
                  \<and> details s3 = details s \<and> base s3 = base s))"
proof -
  let ?relabel_fails = "HAVE_SELINUX P \<and> ISSET (flags (details s)) (CD_RBAC_ENABLED P)
                        \<and> selinux_relabel_tty e = - 1"
  define s2 where "s2 =
    (if HAVE_SELINUX P \<and> ISSET (flags (details s)) (CD_RBAC_ENABLED P)
     then log_call Selinux_audit_role_change (s\<lparr>ec := ec_zero, sigmask := UNIV\<rparr>)
     else s\<lparr>ec := ec_zero, sigmask := UNIV\<rparr>)"
  define s3 where "s3 = s2\<lparr>ec := (ec s2)\<lparr>cmnd_pid := sudo_debug_fork e\<rparr>\<rparr>"
  have s3: "details s3 = details s" "base s3 = base s"
    by (simp_all add: s3_def s2_def)
  show ?thesis
  proof (cases "sudo_terminated e")
    case True
    with assms have "s' = s\<lparr>ec := ec_zero, sigmask := sigmask s\<rparr>"
      by (simp add: exec_nopty_def Let_def split: option.splits if_splits)
    with True show ?thesis by simp
  next
    case False
    show ?thesis
    proof (cases ?relabel_fails)
      case True
      with assms False
      have "s' = s\<lparr>ec := ec_zero, sigmask := UNIV,
                     cstat := (cstat s)\<lparr>type := CMD_ERRNO P, val := relabel_errno e\<rparr>\<rparr>"
        by (simp add: exec_nopty_def Let_def split: option.splits if_splits)
      with True False show ?thesis by simp
    next
      case no_fail: False
      from assms False no_fail
      have "\<exists>errpipe intercept_sv.
              exec_nopty_parent P e errpipe intercept_sv (sigmask s) s3 = Inr s'"
        unfolding exec_nopty_def Let_def s3_def s2_def
        by (auto simp del: split_paired_Ex split: option.splits if_splits)
      with s3 False no_fail show ?thesis by blast
    qed
  qed
qed

text \<open>
  The signal mask at every return of \<^verbatim>\<open>exec_nopty\<close>: the mask at entry, except on the
  return after a failed relabel of the tty, where every signal is still blocked.
\<close>

lemma exec_nopty_sigmask:
  assumes "exec_nopty P e s = Inr s'"
  shows "sigmask s' =
           (if \<not> sudo_terminated e \<and> HAVE_SELINUX P
               \<and> ISSET (flags (details s)) (CD_RBAC_ENABLED P) \<and> selinux_relabel_tty e = - 1
            then UNIV else sigmask s)"
  using exec_nopty_returns [OF assms]
  by (auto dest: exec_nopty_parent_frame)

text \<open>
  C2 (the code departs from the specification).  Specified: on the return after a failed
  relabel, as on the two other returns that follow the blocking of signals, the mask is
  the mask at entry.  Lines 401-406 return without the \<^verbatim>\<open>sigprocmask(SIG_SETMASK, &oset)\<close>
  that the return at lines 395-398 makes.  With role-based access control enabled and
  \<^verbatim>\<open>selinux_relabel_tty\<close> failing with errno 13, a caller that entered with no signal
  blocked gets back \<open>ERRNO(13)\<close> with every signal blocked.
\<close>

theorem exec_nopty_relabel_failure_leaves_signals_blocked:
  "exec_nopty example_platform
     (example_env\<lparr>selinux_relabel_tty := - 1, relabel_errno := 13\<rparr>) example_entry
   = Inr (example_entry\<lparr>sigmask := UNIV, cstat := \<lparr>type = 1, val = 13\<rparr>\<rparr>)
   \<and> sigmask example_entry = {}"
  by (simp add: exec_nopty_def example_env_def example_entry_def example_platform_def
      ISSET_def)

text \<open>
  C10.  \<^verbatim>\<open>fill_exec_closure_nopty\<close> moves the pointer to the event base from the
  caller's details into the closure and sets \<open>details.evbase\<close> to \<^verbatim>\<open>NULL\<close>.  So
  whenever \<^verbatim>\<open>exec_nopty\<close> returns after it has passed the two early returns (it then has
  taken the base), \<open>details.evbase\<close> is \<^verbatim>\<open>NULL\<close>, and the base the caller donated has
  been freed.
\<close>

theorem exec_nopty_details_evbase_null:
  "(fill_exec_closure_nopty P e errfd s = Inr s1 \<longrightarrow>
      command_details.evbase (details s1) = None
      \<and> exec_closure_nopty.evbase (ec s1) = command_details.evbase (details s))
   \<and> (exec_nopty P e s = Inr s' \<and> \<not> sudo_terminated e
       \<and> \<not> (HAVE_SELINUX P \<and> ISSET (flags (details s)) (CD_RBAC_ENABLED P)
              \<and> selinux_relabel_tty e = - 1) \<longrightarrow>
      command_details.evbase (details s') = None
      \<and> (command_details.evbase (details s) = Some (base_id (base s)) \<longrightarrow> freed (base s')))"
proof (intro conjI impI)
  assume "fill_exec_closure_nopty P e errfd s = Inr s1"
  from fill_exec_closure_nopty_frame [OF this]
  show "command_details.evbase (details s1) = None"
    and "exec_closure_nopty.evbase (ec s1) = command_details.evbase (details s)"
    by simp_all
next
  assume a: "exec_nopty P e s = Inr s' \<and> \<not> sudo_terminated e
       \<and> \<not> (HAVE_SELINUX P \<and> ISSET (flags (details s)) (CD_RBAC_ENABLED P)
              \<and> selinux_relabel_tty e = - 1)"
  then have "exec_nopty P e s = Inr s'"
    by simp
  from exec_nopty_returns [OF this] a
  obtain errpipe intercept_sv s3
    where run: "exec_nopty_parent P e errpipe intercept_sv (sigmask s) s3 = Inr s'"
      and s3: "details s3 = details s" "base s3 = base s"
    by auto
  from exec_nopty_parent_frame [OF run] s3
  show "command_details.evbase (details s') = None"
    and "command_details.evbase (details s) = Some (base_id (base s)) \<Longrightarrow> freed (base s')"
    by simp_all
qed

lemma example_run_returns:
  "(case exec_nopty example_platform example_env example_entry of
      Inr s' \<Rightarrow> True | Inl a \<Rightarrow> False)"
  by code_simp

theorem exec_nopty_details_evbase_null_witness:
  "\<exists>s'. exec_nopty example_platform example_env example_entry = Inr s' \<and>
        command_details.evbase (details s') = None \<and> freed (base s')"
proof -
  from example_run_returns obtain s'
    where r: "exec_nopty example_platform example_env example_entry = Inr s'"
    by (auto split: sum.splits)
  have a: "\<not> sudo_terminated example_env"
    by (simp add: example_env_def)
  have b: "\<not> (HAVE_SELINUX example_platform
               \<and> ISSET (flags (details example_entry)) (CD_RBAC_ENABLED example_platform)
               \<and> selinux_relabel_tty example_env = - 1)"
    by (simp add: example_env_def)
  have c: "command_details.evbase (details example_entry) = Some (base_id (base example_entry))"
    by (simp add: example_entry_def)
  from r a b have pre: "exec_nopty example_platform example_env example_entry = Inr s'
      \<and> \<not> sudo_terminated example_env
      \<and> \<not> (HAVE_SELINUX example_platform
               \<and> ISSET (flags (details example_entry)) (CD_RBAC_ENABLED example_platform)
               \<and> selinux_relabel_tty example_env = - 1)"
    by (intro conjI)
  have "command_details.evbase (details s') = None
      \<and> (command_details.evbase (details example_entry) = Some (base_id (base example_entry))
           \<longrightarrow> freed (base s'))"
    by (rule exec_nopty_details_evbase_null
        [where P = example_platform and e = example_env and s = example_entry and s' = s',
          THEN conjunct2, rule_format, OF pre])
  with c have "command_details.evbase (details s') = None \<and> freed (base s')"
    by (intro conjI) (erule conjunct1, erule conjunct2 [THEN mp])
  with r show ?thesis
    by (intro exI [of _ s'] conjI) simp_all
qed

subsection \<open>The error pipe gives one terminal outcome\<close>

text \<open>
  What \<^verbatim>\<open>fill_exec_closure_nopty\<close> leaves on a donated base: the events it added, in
  order, after those the base held; the error-pipe event in the closure.
\<close>

lemma alloc_and_add_all_registered:
  assumes "alloc_and_add_all e evs s = Inr s'"
      and "exec_closure_nopty.evbase (ec s) = Some (base_id (base s))"
      and "\<forall>x\<in>set evs. \<forall>g c.
             exec_closure_nopty.evbase (snd x g c) = exec_closure_nopty.evbase c"
  shows "registered (base s') = registered (base s) @ map fst evs"
  using assms
proof (induction evs arbitrary: s)
  case Nil
  then show ?case by simp
next
  case (Cons x evs)
  obtain ev f where x: "x = (ev, f)"
    by (cases x) auto
  from Cons.prems(1) obtain s1 where s1: "alloc_and_add e ev f s = Inr s1"
    and rest: "alloc_and_add_all e evs s1 = Inr s'"
    by (auto simp add: x split: sum.splits)
  have f: "\<forall>g c. exec_closure_nopty.evbase (f g c) = exec_closure_nopty.evbase c"
    using Cons.prems(3) by (simp add: x)
  have evs: "\<forall>x\<in>set evs. \<forall>g c.
               exec_closure_nopty.evbase (snd x g c) = exec_closure_nopty.evbase c"
    using Cons.prems(3) by simp
  from s1 f Cons.prems(2) have reg1: "registered (base s1) = registered (base s) @ [ev]"
    by (auto simp add: alloc_and_add_def sudo_ev_add_def on_base_def split: if_splits)
  from alloc_and_add_frame [OF s1 f] Cons.prems(2)
  have "exec_closure_nopty.evbase (ec s1) = Some (base_id (base s1))"
    by simp
  with rest have "registered (base s') = registered (base s1) @ map fst evs"
    using evs by (rule Cons.IH)
  with reg1 show ?case
    by (simp add: x)
qed

lemma alloc_and_add_all_errpipe_event:
  assumes "alloc_and_add_all e evs s = Inr s'"
      and "\<forall>x\<in>set evs. \<forall>g c. errpipe_event (snd x g c) = errpipe_event c"
  shows "errpipe_event (ec s') = errpipe_event (ec s)"
  using assms
proof (induction evs arbitrary: s)
  case Nil
  then show ?case by simp
next
  case (Cons x evs)
  obtain ev f where x: "x = (ev, f)"
    by (cases x) auto
  from Cons.prems(1) obtain s1 where s1: "alloc_and_add e ev f s = Inr s1"
    and rest: "alloc_and_add_all e evs s1 = Inr s'"
    by (auto simp add: x split: sum.splits)
  have f: "\<forall>g c. errpipe_event (f g c) = errpipe_event c"
    using Cons.prems(2) by (simp add: x)
  have evs: "\<forall>x\<in>set evs. \<forall>g c. errpipe_event (snd x g c) = errpipe_event c"
    using Cons.prems(2) by simp
  from s1 f have "errpipe_event (ec s1) = errpipe_event (ec s)"
    by (auto simp add: alloc_and_add_def sudo_ev_add_def split: if_splits)
  moreover from rest evs have "errpipe_event (ec s') = errpipe_event (ec s1)"
    by (rule Cons.IH)
  ultimately show ?case by simp
qed

lemma fill_exec_closure_nopty_events:
  assumes fill: "fill_exec_closure_nopty P e errfd s = Inr s'"
      and ptr: "command_details.evbase (details s) = Some (base_id (base s))"
      and fresh: "registered (base s) = []"
  shows "exec_closure_nopty.evbase (ec s') = Some (base_id (base s'))"
    and "errpipe_event (ec s') = Some (Ev_read errfd)"
    and "\<forall>fd'. Ev_read fd' \<in> set (registered (base s')) \<longrightarrow> fd' = errfd"
proof -
  let ?s1 = "s\<lparr>ec := (ec s)\<lparr>ppgrp := getpgrp e,
                exec_closure_nopty.evbase := command_details.evbase (details s)\<rparr>,
              details := (details s)\<lparr>command_details.evbase := None\<rparr>\<rparr>"
  let ?sigs = "[(Ev_signal SIGINT, sigint_event_update),
                (Ev_signal SIGQUIT, sigquit_event_update),
                (Ev_signal SIGTSTP, sigtstp_event_update),
                (Ev_signal SIGTERM, sigterm_event_update),
                (Ev_signal SIGHUP, sighup_event_update),
                (Ev_signal SIGALRM, sigalrm_event_update),
                (Ev_signal SIGPIPE, sigpipe_event_update),
                (Ev_signal SIGUSR1, sigusr1_event_update),
                (Ev_signal SIGUSR2, sigusr2_event_update),
                (Ev_signal SIGCHLD, sigchld_event_update),
                (Ev_signal SIGCONT, sigcont_event_update)]
               @ (if SIGINFO_defined P then [(Ev_signal SIGINFO, siginfo_event_update)] else [])"
  from fill obtain s2
    where run: "alloc_and_add_all e ((Ev_read errfd, errpipe_event_update) # ?sigs) ?s1 = Inr s2"
      and s': "s' = log_call (Ev_base_setdef (exec_closure_nopty.evbase (ec s2))) s2"
    unfolding fill_exec_closure_nopty_def Let_def
    by (auto split: sum.splits simp del: alloc_and_add_all.simps)
  from run obtain s1a
    where first: "alloc_and_add e (Ev_read errfd) errpipe_event_update ?s1 = Inr s1a"
      and rest: "alloc_and_add_all e ?sigs s1a = Inr s2"
    by (auto split: sum.splits simp del: alloc_and_add_all.simps
        simp add: alloc_and_add_all.simps(2))
  from first ptr fresh have s1a: "errpipe_event (ec s1a) = Some (Ev_read errfd)"
    "registered (base s1a) = [Ev_read errfd]"
    "exec_closure_nopty.evbase (ec s1a) = Some (base_id (base s1a))"
    by (auto simp add: alloc_and_add_def sudo_ev_add_def on_base_def split: if_splits)
  have pres: "\<forall>x\<in>set ?sigs. \<forall>g c.
               exec_closure_nopty.evbase (snd x g c) = exec_closure_nopty.evbase c"
    "\<forall>x\<in>set ?sigs. \<forall>g c. errpipe_event (snd x g c) = errpipe_event c"
    by simp_all
  from alloc_and_add_all_registered [OF rest s1a(3) pres(1)] s1a(2)
  have reg: "registered (base s2) = Ev_read errfd # map fst ?sigs"
    by simp
  from alloc_and_add_all_errpipe_event [OF rest pres(2)] s1a(1)
  have ev: "errpipe_event (ec s2) = Some (Ev_read errfd)"
    by simp
  from alloc_and_add_all_frame [OF rest pres(1)] s1a(3)
  have p: "exec_closure_nopty.evbase (ec s2) = Some (base_id (base s2))"
    by simp
  from p show "exec_closure_nopty.evbase (ec s') = Some (base_id (base s'))"
    by (simp add: s')
  from ev show "errpipe_event (ec s') = Some (Ev_read errfd)"
    by (simp add: s')
  from reg show "\<forall>fd'. Ev_read fd' \<in> set (registered (base s')) \<longrightarrow> fd' = errfd"
    by (auto simp add: s' split: if_splits)
qed

lemma errpipe_cb_terminal_registered:
  assumes "nread r \<noteq> - 1"
      and "exec_closure_nopty.evbase (ec s) = Some (base_id (base s))"
      and "errpipe_event (ec s) = Some ev"
  shows "registered (base (errpipe_cb P fd r s)) = removeAll ev (registered (base s))"
  using assms by (simp add: errpipe_cb_def registered_sudo_ev_del)

lemma errpipe_cb_terminal_calls:
  "nread r \<noteq> - 1 \<Longrightarrow>
     new_calls s (errpipe_cb P fd r s)
       = [Ev_del (exec_closure_nopty.evbase (ec s)) (errpipe_event (ec s)), Close fd]
     \<and> got_break (base (errpipe_cb P fd r s)) = got_break (base s)
     \<and> got_exit (base (errpipe_cb P fd r s)) = got_exit (base s)"
  by (simp add: errpipe_cb_def new_calls_def)

lemma terminal_outcome_simps [simp]:
  "terminal_outcome (Fd_readable fd r) = (nread r \<noteq> - 1)"
  "terminal_outcome (Signal_delivered signo si k) = False"
  by (simp_all add: terminal_outcome_def)

lemma errpipe_delivery_simps [simp]:
  "errpipe_delivery (Fd_readable fd r) = True"
  "errpipe_delivery (Signal_delivered signo si k) = False"
  by (simp_all add: errpipe_delivery_def)

lemma terminal_outcome_is_errpipe_delivery:
  "terminal_outcome oc \<Longrightarrow> errpipe_delivery oc"
  by (cases oc) simp_all

text \<open>With no read event registered, the dispatcher never runs the error-pipe callback.\<close>

lemma run_events_no_errpipe:
  "\<forall>fd. Ev_read fd \<notin> set (registered (base s)) \<Longrightarrow> run_events P ocs s = Some (s', d) \<Longrightarrow>
     filter errpipe_delivery d = []"
proof (induction ocs arbitrary: s d)
  case Nil
  then show ?case by (simp split: if_splits)
next
  case (Cons oc ocs)
  from run_events_step [OF Cons.prems(2)] show ?case
  proof (elim disjE exE conjE)
    assume "d = []"
    then show ?thesis by simp
  next
    assume "run_events P ocs s = Some (s', d)"
    with Cons.prems(1) show ?thesis by (rule Cons.IH)
  next
    fix fd r d'
    assume "Ev_read fd \<in> set (registered (base s))"
    with Cons.prems(1) show ?thesis by simp
  next
    fix signo si k s1 d'
    assume oc: "oc = Signal_delivered signo si k"
      and cb: "signal_cb_nopty P k signo si s = Some s1"
      and rest: "run_events P ocs s1 = Some (s', d')" and d: "d = oc # d'"
    from signal_cb_nopty_frame [OF cb] Cons.prems(1)
    have "\<forall>fd. Ev_read fd \<notin> set (registered (base s1))"
      by simp
    from Cons.IH [OF this rest] show ?thesis
      by (simp add: d oc)
  qed
qed

text \<open>
  While the only read event on the base is the closure's error-pipe event, a run of the
  dispatcher hands at most one terminal outcome to the callback.
\<close>

lemma run_events_one_terminal_outcome:
  assumes "exec_closure_nopty.evbase (ec s) = Some (base_id (base s))"
      and "errpipe_event (ec s) = Some (Ev_read fd)"
      and "\<forall>fd'. Ev_read fd' \<in> set (registered (base s)) \<longrightarrow> fd' = fd"
      and "run_events P ocs s = Some (s', d)"
  shows "length (filter terminal_outcome d) \<le> 1"
  using assms
proof (induction ocs arbitrary: s d)
  case Nil
  then show ?case by (simp split: if_splits)
next
  case (Cons oc ocs)
  from run_events_step [OF Cons.prems(4)] show ?case
  proof (elim disjE exE conjE)
    assume "d = []"
    then show ?thesis by simp
  next
    assume "run_events P ocs s = Some (s', d)"
    with Cons.prems(1,2,3) show ?thesis by (rule Cons.IH)
  next
    fix fd' r d'
    assume oc: "oc = Fd_readable fd' r" and reg: "Ev_read fd' \<in> set (registered (base s))"
      and rest: "run_events P ocs (errpipe_cb P fd' r s) = Some (s', d')" and d: "d = oc # d'"
    from reg Cons.prems(3) have fd': "fd' = fd"
      by simp
    show ?thesis
    proof (cases "nread r = - 1")
      case True
      have "length (filter terminal_outcome d') \<le> 1"
      proof (rule Cons.IH [OF _ _ _ rest])
        show "exec_closure_nopty.evbase (ec (errpipe_cb P fd' r s))
                = Some (base_id (base (errpipe_cb P fd' r s)))"
          using Cons.prems(1) by simp
        show "errpipe_event (ec (errpipe_cb P fd' r s)) = Some (Ev_read fd)"
          using Cons.prems(2) by simp
        show "\<forall>fd'a. Ev_read fd'a \<in> set (registered (base (errpipe_cb P fd' r s)))
                \<longrightarrow> fd'a = fd"
          using Cons.prems(3) True by (simp add: errpipe_cb_read_error_registered)
      qed
      with True show ?thesis
        by (simp add: d oc)
    next
      case False
      from errpipe_cb_terminal_registered [OF False Cons.prems(1) Cons.prems(2)] Cons.prems(3)
      have "\<forall>fd''. Ev_read fd'' \<notin> set (registered (base (errpipe_cb P fd' r s)))"
        by auto
      from run_events_no_errpipe [OF this rest] have "filter terminal_outcome d' = []"
        by (auto simp add: filter_empty_conv dest: terminal_outcome_is_errpipe_delivery)
      then show ?thesis
        by (simp add: d)
    qed
  next
    fix signo si k s1 d'
    assume oc: "oc = Signal_delivered signo si k"
      and cb: "signal_cb_nopty P k signo si s = Some s1"
      and rest: "run_events P ocs s1 = Some (s', d')" and d: "d = oc # d'"
    note f = signal_cb_nopty_frame [OF cb]
    have "length (filter terminal_outcome d') \<le> 1"
    proof (rule Cons.IH [OF _ _ _ rest])
      show "exec_closure_nopty.evbase (ec s1) = Some (base_id (base s1))"
        using Cons.prems(1) f by simp
      show "errpipe_event (ec s1) = Some (Ev_read fd)"
        using Cons.prems(2) f by simp
      show "\<forall>fd'. Ev_read fd' \<in> set (registered (base s1)) \<longrightarrow> fd' = fd"
        using Cons.prems(3) f by simp
    qed
    then show ?thesis
      by (simp add: d oc)
  qed
qed

text \<open>
  C7.  On EOF or on a value (\<open>nread \<noteq> -1\<close>) the callback calls \<^verbatim>\<open>sudo_ev_del\<close> on its
  event and \<^verbatim>\<open>close\<close> on the descriptor and nothing else: it does not break (or exit)
  the loop.  The event is then off the base, so in whatever the dispatcher runs
  afterwards the error-pipe callback does not fire again; and a whole run of the
  dispatcher hands the callback at most one terminal outcome.  The closure is as
  \<^verbatim>\<open>fill_exec_closure_nopty\<close> leaves it on a fresh base (\<open>fill_exec_closure_nopty_events\<close>):
  its \<open>evbase\<close> is the base, its \<open>errpipe_event\<close> the only read event on it.
\<close>

theorem errpipe_cb_one_terminal_outcome:
  assumes "exec_closure_nopty.evbase (ec s) = Some (base_id (base s))"
      and "errpipe_event (ec s) = Some (Ev_read fd)"
      and "\<forall>fd'. Ev_read fd' \<in> set (registered (base s)) \<longrightarrow> fd' = fd"
  shows "(nread r \<noteq> - 1 \<longrightarrow>
            new_calls s (errpipe_cb P fd r s)
              = [Ev_del (exec_closure_nopty.evbase (ec s)) (errpipe_event (ec s)), Close fd]
            \<and> got_break (base (errpipe_cb P fd r s)) = got_break (base s)
            \<and> got_exit (base (errpipe_cb P fd r s)) = got_exit (base s)
            \<and> Ev_read fd \<notin> set (registered (base (errpipe_cb P fd r s)))
            \<and> (\<forall>ocs s' d. run_events P ocs (errpipe_cb P fd r s) = Some (s', d)
                  \<longrightarrow> filter errpipe_delivery d = []))
       \<and> (\<forall>ocs s' d. run_events P ocs s = Some (s', d)
             \<longrightarrow> length (filter terminal_outcome d) \<le> 1)"
proof (intro conjI impI allI)
  assume t: "nread r \<noteq> - 1"
  from errpipe_cb_terminal_calls [OF t]
  show "new_calls s (errpipe_cb P fd r s)
          = [Ev_del (exec_closure_nopty.evbase (ec s)) (errpipe_event (ec s)), Close fd]"
    and "got_break (base (errpipe_cb P fd r s)) = got_break (base s)"
    and "got_exit (base (errpipe_cb P fd r s)) = got_exit (base s)"
    by simp_all
  from errpipe_cb_terminal_registered [OF t assms(1) assms(2)] assms(3)
  have none: "\<forall>fd'. Ev_read fd' \<notin> set (registered (base (errpipe_cb P fd r s)))"
    by auto
  then show "Ev_read fd \<notin> set (registered (base (errpipe_cb P fd r s)))"
    by simp
  fix ocs s' d
  assume "run_events P ocs (errpipe_cb P fd r s) = Some (s', d)"
  with none show "filter errpipe_delivery d = []"
    by (rule run_events_no_errpipe)
next
  fix ocs s' d
  assume "run_events P ocs s = Some (s', d)"
  with assms show "length (filter terminal_outcome d) \<le> 1"
    by (rule run_events_one_terminal_outcome)
qed

text \<open>
  The instance: EOF arrives on the error pipe; the descriptor is then reported readable
  once more and the command is reaped.  The second report reaches no callback.
\<close>

lemma example_events_return:
  "(case run_events example_platform
           [Fd_readable 3 \<lparr>nread = 0, errval = 0, errno = 0\<rparr>,
            Fd_readable 3 \<lparr>nread = 0, errval = 0, errno = 0\<rparr>,
            Signal_delivered SIGCHLD \<lparr>user_signaled = False, si_pid = 42\<rparr> example_syscalls]
           example_state of
      Some (s', d) \<Rightarrow> length d = 2 | None \<Rightarrow> False)"
  by code_simp

theorem errpipe_cb_one_terminal_outcome_witness:
  "new_calls example_state
     (errpipe_cb example_platform 3 \<lparr>nread = 0, errval = 0, errno = 0\<rparr> example_state)
     = [Ev_del (Some 1) (Some (Ev_read 3)), Close 3]
   \<and> got_break (base (errpipe_cb example_platform 3 \<lparr>nread = 0, errval = 0, errno = 0\<rparr>
                        example_state)) = False
   \<and> Ev_read 3 \<notin> set (registered (base
        (errpipe_cb example_platform 3 \<lparr>nread = 0, errval = 0, errno = 0\<rparr> example_state)))
   \<and> (\<exists>s' d. run_events example_platform
           [Fd_readable 3 \<lparr>nread = 0, errval = 0, errno = 0\<rparr>,
            Fd_readable 3 \<lparr>nread = 0, errval = 0, errno = 0\<rparr>,
            Signal_delivered SIGCHLD \<lparr>user_signaled = False, si_pid = 42\<rparr> example_syscalls]
           example_state = Some (s', d)
         \<and> length (filter terminal_outcome d) \<le> 1)"
proof -
  let ?r = "\<lparr>nread = 0, errval = 0, errno = 0\<rparr>"
  have a: "exec_closure_nopty.evbase (ec example_state) = Some (base_id (base example_state))"
    by (simp add: example_state_def example_closure_def example_base_def)
  have b: "errpipe_event (ec example_state) = Some (Ev_read 3)"
    by (simp add: example_state_def example_closure_def)
  have c: "\<forall>fd'. Ev_read fd' \<in> set (registered (base example_state)) \<longrightarrow> fd' = 3"
    by (simp add: example_state_def example_base_def)
  have e: "exec_closure_nopty.evbase (ec example_state) = Some 1"
    "got_break (base example_state) = False"
    by (simp_all add: example_state_def example_closure_def example_base_def)
  have t: "nread ?r \<noteq> - 1"
    by simp
  note th = errpipe_cb_one_terminal_outcome [OF a b c, where r = ?r and P = example_platform]
  note p0 = th [THEN conjunct1, rule_format, OF t]
  have p1: "new_calls example_state (errpipe_cb example_platform 3 ?r example_state)
             = [Ev_del (Some 1) (Some (Ev_read 3)), Close 3]"
    using p0 [THEN conjunct1] by (simp only: e b)
  have p2: "got_break (base (errpipe_cb example_platform 3 ?r example_state)) = False"
    using p0 [THEN conjunct2, THEN conjunct1] by (simp only: e)
  have p3: "Ev_read 3 \<notin> set (registered (base (errpipe_cb example_platform 3 ?r example_state)))"
    by (rule p0 [THEN conjunct2, THEN conjunct2, THEN conjunct2, THEN conjunct1])
  define run where "run = run_events example_platform
           [Fd_readable 3 ?r, Fd_readable 3 ?r,
            Signal_delivered SIGCHLD \<lparr>user_signaled = False, si_pid = 42\<rparr> example_syscalls]
           example_state"
  from example_events_return
  have "case run of Some (s', d) \<Rightarrow> length d = 2 | None \<Rightarrow> False"
    unfolding run_def .
  then obtain s' d where "run = Some (s', d)"
    by (cases run) auto
  then have r: "run_events example_platform
           [Fd_readable 3 ?r, Fd_readable 3 ?r,
            Signal_delivered SIGCHLD \<lparr>user_signaled = False, si_pid = 42\<rparr> example_syscalls]
           example_state = Some (s', d)"
    unfolding run_def .
  from th [THEN conjunct2, rule_format, OF r]
  have q: "length (filter terminal_outcome d) \<le> 1" .
  from r q have "\<exists>s' d. run_events example_platform
           [Fd_readable 3 ?r, Fd_readable 3 ?r,
            Signal_delivered SIGCHLD \<lparr>user_signaled = False, si_pid = 42\<rparr> example_syscalls]
           example_state = Some (s', d)
         \<and> length (filter terminal_outcome d) \<le> 1"
    by (intro exI conjI)
  with p1 p2 p3 show ?thesis
    by (intro conjI)
qed

end
